theory Spec2Isabelle
  imports Main
begin

section \<open>ECMAScript string operations used by the bridge\<close>

text \<open>
  Strings of the TypeScript source are modelled as HOL strings, one \<open>char\<close> per code
  unit. The operations below follow the ECMAScript definitions of the methods the source
  calls: \<open>String.prototype.replace\<close> with a string pattern (first occurrence only),
  \<open>startsWith\<close>, \<open>endsWith\<close>, \<open>split\<close> with a one-character separator, \<open>trim\<close> and
  \<open>indexOf\<close> with a start position.
\<close>

fun js_replace :: "string \<Rightarrow> string \<Rightarrow> string \<Rightarrow> string" where
  "js_replace pat rep [] = (if pat = [] then rep else [])"
| "js_replace pat rep (c # cs) =
     (if take (length pat) (c # cs) = pat then rep @ drop (length pat) (c # cs)
      else c # js_replace pat rep cs)"

definition startsWith :: "string \<Rightarrow> string \<Rightarrow> bool" where
  "startsWith s p = (take (length p) s = p)"

definition endsWith :: "string \<Rightarrow> string \<Rightarrow> bool" where
  "endsWith s p = (length p \<le> length s \<and> drop (length s - length p) s = p)"

text \<open>\<open>s.split(sep)\<close> for a separator of one character: never the empty array.\<close>

fun split_at :: "char \<Rightarrow> string \<Rightarrow> string \<Rightarrow> string list" where
  "split_at sep cur [] = [cur]"
| "split_at sep cur (c # cs) =
     (if c = sep then cur # split_at sep [] cs else split_at sep (cur @ [c]) cs)"

definition split_lines :: "string \<Rightarrow> string list" where
  "split_lines content = split_at (CHR 0x0A) [] content"

definition is_white :: "char \<Rightarrow> bool" where
  "is_white c = (c \<in> set [CHR 0x09, CHR 0x0A, CHR 0x0B, CHR 0x0C, CHR 0x0D, CHR 0x20, CHR 0xA0])"

definition trim :: "string \<Rightarrow> string" where
  "trim s = rev (dropWhile is_white (rev (dropWhile is_white s)))"

text \<open>
  \<open>StringIndexOf(s, q, from)\<close>: the least index \<open>i \<ge> from\<close> at which \<open>q\<close> occurs in
  \<open>s\<close>. \<open>find_from q rest i\<close> scans \<open>rest\<close>, the part of the string from index \<open>i\<close> on.
  The empty search string occurs at every index up to and including the length.
\<close>

fun find_from :: "string \<Rightarrow> string \<Rightarrow> nat \<Rightarrow> nat option" where
  "find_from q [] i = (if q = [] then Some i else None)"
| "find_from q (c # cs) i =
     (if take (length q) (c # cs) = q then Some i else find_from q cs (Suc i))"

text \<open>
  \<open>s.indexOf(q, pos)\<close>: the start position is clamped into \<open>[0, length s]\<close> before the
  search, and \<open>-1\<close> reports that there is no occurrence.
\<close>

definition indexOf :: "string \<Rightarrow> string \<Rightarrow> int \<Rightarrow> int" where
  "indexOf s q pos =
     (let start = min (nat (max pos 0)) (length s)
      in case find_from q (drop start s) start of None \<Rightarrow> - 1 | Some i \<Rightarrow> int i)"

text \<open>\<open>xs.join(sep)\<close> on an array of strings.\<close>

fun js_join :: "string \<Rightarrow> string list \<Rightarrow> string" where
  "js_join sep [] = []"
| "js_join sep [x] = x"
| "js_join sep (x # xs) = x @ sep @ js_join sep xs"

text \<open>Decimal rendering of a non-negative integer in a template literal.\<close>

fun digits_of :: "nat \<Rightarrow> string" where
  "digits_of n =
     (if n < 10 then [char_of (48 + n)] else digits_of (n div 10) @ [char_of (48 + n mod 10)])"

section \<open>Data of the code-intelligence protocol\<close>

record position =
  line :: nat
  character :: nat

record lsp_range =
  start :: position
  end' :: position

record location =
  uri :: string
  range' :: lsp_range

text \<open>
  A node of a document outline as the source reads it (type \<open>any\<close>): a name and the
  optional fields \<open>range\<close>, \<open>selectionRange\<close>, \<open>location\<close> and \<open>children\<close>.
\<close>

datatype symbol =
  Symbol (name: string) (sym_range: "lsp_range option") (selectionRange: "lsp_range option")
    (sym_location: "location option") (children: "symbol list option")

datatype definition_result = Single location | Multiple "location list"

text \<open>
  A JavaScript number handed to a position parameter: an integer, or the value of
  \<open>Number(s)\<close> for a string \<open>s\<close>, kept symbolic (it is \<open>NaN\<close> when \<open>s\<close> is not a numeric
  literal).
\<close>

datatype jsnumber = Num int | StringToNumber string

section \<open>Tool arguments, errors, results\<close>

text \<open>
  The arguments of a tool call: a JSON value, or \<open>undefined\<close> when the request carries
  none. Numbers are the integers; an object is the list of its members.
\<close>

datatype json =
    JUndefined
  | JNull
  | JBool bool
  | JNumber int
  | JString string
  | JArray "json list"
  | JObject "(string \<times> json) list"

datatype zod_issue = invalid_type "string list" | invalid_union "string list"

datatype error =
    Error string
  | ZodError "zod_issue list"
  | McpError int string

record tool_result =
  content_text :: string
  isError :: bool

record search_match =
  match_line :: nat
  match_character :: int
  match_text :: string

section \<open>The environment\<close>

text \<open>
  Everything the client writes to the outside is recorded in a trace. The language
  server, the file system and the connection answer as functions of the trace so far, so
  that the same request may be answered differently at different times.
\<close>

datatype event =
    Console_error string
  | ReadFile string
  | Request_initialize string
  | Notification_initialized
  | Notification_didOpen string string nat string
  | Request_definition string jsnumber jsnumber
  | Request_references string jsnumber jsnumber
  | Request_hover string jsnumber jsnumber
  | Request_documentSymbol string

text \<open>
  Library functions of Node, ECMAScript, zod and the SDK that the source calls but does
  not define are parameters (\<open>PROJECT_ROOT\<close> is \<open>process.cwd()\<close> at startup, \<open>path_resolve\<close>
  is \<open>path.resolve\<close> in that working directory); the remaining fields are the answers
  of the outside world.
\<close>

record world =
  PROJECT_ROOT :: string
  path_resolve :: "string list \<Rightarrow> string"
  JSON_stringify_locations :: "location list \<Rightarrow> string"
  JSON_stringify_matches :: "search_match list \<Rightarrow> string"
  ZodError_message :: "zod_issue list \<Rightarrow> string"
  McpError_message :: "int \<Rightarrow> string \<Rightarrow> string"
  fs_readFile :: "event list \<Rightarrow> string \<Rightarrow> error + string"
  sendNotification :: "event list \<Rightarrow> event \<Rightarrow> error option"
  request_initialize :: "event list \<Rightarrow> string \<Rightarrow> error + string"
  request_definition ::
    "event list \<Rightarrow> string \<Rightarrow> jsnumber \<Rightarrow> jsnumber \<Rightarrow> error + definition_result option"
  request_references ::
    "event list \<Rightarrow> string \<Rightarrow> jsnumber \<Rightarrow> jsnumber \<Rightarrow> error + location list option"
  request_hover :: "event list \<Rightarrow> string \<Rightarrow> jsnumber \<Rightarrow> jsnumber \<Rightarrow> error + string option"
  request_documentSymbol :: "event list \<Rightarrow> string \<Rightarrow> error + symbol list option"

definition message :: "world \<Rightarrow> error \<Rightarrow> string" where
  "message w e =
     (case e of
        Error m \<Rightarrow> m
      | ZodError issues \<Rightarrow> ZodError_message w issues
      | McpError code m \<Rightarrow> McpError_message w code m)"

section \<open>The range-containment predicate\<close>

definition isLocationInRange :: "world \<Rightarrow> location \<Rightarrow> lsp_range \<Rightarrow> string \<Rightarrow> bool" where
  "isLocationInRange w loc rng filePath =
     (let locPath = js_replace ''file://'' [] (uri loc);
          targetPath = path_resolve w [PROJECT_ROOT w, filePath]
      in if path_resolve w [locPath] \<noteq> targetPath then False
         else
           let locLine = line (start (range' loc));
               startLine = line (start rng);
               endLine = line (end' rng)
           in if locLine < startLine \<or> locLine > endLine then False
              else if locLine = startLine
                      \<and> character (start (range' loc)) < character (start rng) then False
              else if locLine = endLine
                      \<and> character (end' (range' loc)) > character (end' rng) then False
              else True)"

text \<open>
  The two ingredients the containment test combines: equality of the two resolved paths,
  and the line-major order on positions.
\<close>

definition same_path :: "world \<Rightarrow> string \<Rightarrow> string \<Rightarrow> bool" where
  "same_path w u filePath =
     (path_resolve w [js_replace ''file://'' [] u] = path_resolve w [PROJECT_ROOT w, filePath])"

definition pos_le :: "position \<Rightarrow> position \<Rightarrow> bool" where
  "pos_le p q = (line p < line q \<or> (line p = line q \<and> character p \<le> character q))"

definition start_within :: "location \<Rightarrow> lsp_range \<Rightarrow> bool" where
  "start_within loc rng =
     (pos_le (start rng) (start (range' loc)) \<and> pos_le (start (range' loc)) (end' rng))"


section \<open>The code-intelligence client (lspClient.ts)\<close>

text \<open>
  The fields of \<open>LspClient\<close> that the methods read and write, and the trace of what the
  client has done so far. The connection and the child process are the outside world.
\<close>

record lsp_state =
  rootPath :: string
  isInitialized :: bool
  openFiles :: "string set"
  trace :: "event list"

definition emit :: "event \<Rightarrow> lsp_state \<Rightarrow> lsp_state" where
  "emit e s = s\<lparr>trace := trace s @ [e]\<rparr>"

text \<open>The state the constructor leaves: nothing opened, not initialised.\<close>

definition new_LspClient :: "world \<Rightarrow> lsp_state" where
  "new_LspClient w =
     \<lparr>rootPath = path_resolve w [PROJECT_ROOT w], isInitialized = False, openFiles = {},
      trace = []\<rparr>"

text \<open>
  \<open>initialize()\<close>: returns at once when the flag is set; otherwise sends the
  \<open>initialize\<close> request and the \<open>initialized\<close> notification, and sets the flag only after
  both went through. An error of either is logged and thrown again. The method is
  taken as one step from the state in which it is called to the state in which it
  returns: this is a call during which no other call of a client method runs.
\<close>

definition initialize :: "world \<Rightarrow> lsp_state \<Rightarrow> (error + string option) \<times> lsp_state" where
  "initialize w s =
     (if isInitialized s then (Inr None, s)
      else
        let s1 = emit (Console_error ''Initializing LSP connection...'') s;
            rootUri = ''file://'' @ rootPath s1;
            s2 = emit (Console_error ''Sending initialize request...'') s1
        in case request_initialize w (trace s2) rootUri of
             Inl e \<Rightarrow>
               (Inl e,
                emit (Console_error (''Failed to initialize LSP: '' @ message w e))
                  (emit (Request_initialize rootUri) s2))
           | Inr result \<Rightarrow>
               (let s3 = emit (Console_error ''Initialize request successful.'')
                           (emit (Request_initialize rootUri) s2)
                in (case sendNotification w (trace s3) Notification_initialized of
                      Some e \<Rightarrow>
                        (Inl e,
                         emit (Console_error (''Failed to initialize LSP: '' @ message w e)) s3)
                    | None \<Rightarrow>
                        (Inr (Some result),
                         (emit Notification_initialized s3)\<lparr>isInitialized := True\<rparr>))))"

definition ensureInitialized :: "world \<Rightarrow> lsp_state \<Rightarrow> (error + unit) \<times> lsp_state" where
  "ensureInitialized w s =
     (if \<not> isInitialized s then
        (case initialize w s of
           (Inl e, s') \<Rightarrow> (Inl e, s')
         | (Inr r, s') \<Rightarrow> (Inr (), s'))
      else (Inr (), s))"

definition getLanguageId :: "string \<Rightarrow> string" where
  "getLanguageId filePath =
     (if endsWith filePath ''.ts'' then ''typescript''
      else if endsWith filePath ''.js'' then ''javascript''
      else if endsWith filePath ''.py'' then ''python''
      else ''plaintext'')"

text \<open>
  \<open>didOpen(filePath)\<close>: nothing to do for a URI already in \<open>openFiles\<close>; otherwise the
  file is read and announced, and the URI is added after the notification. An error of
  the read or of the notification is logged and swallowed. As a function from the
  state at the call to the state at the return this is a call that no other call
  overlaps; \<open>didOpen_step\<close> below takes the method apart at its points of suspension.
\<close>

definition didOpen :: "world \<Rightarrow> string \<Rightarrow> lsp_state \<Rightarrow> lsp_state" where
  "didOpen w filePath s =
     (let fullPath = path_resolve w [rootPath s, filePath];
          u = ''file://'' @ fullPath
      in if u \<in> openFiles s then s
         else
           case fs_readFile w (trace s) fullPath of
             Inl e \<Rightarrow>
               emit (Console_error (''Failed to open file: '' @ filePath)) (emit (ReadFile fullPath) s)
           | Inr content \<Rightarrow>
               (let s1 = emit (ReadFile fullPath) s;
                    n = Notification_didOpen u (getLanguageId filePath) 1 content
                in (case sendNotification w (trace s1) n of
                      Some e \<Rightarrow> emit (Console_error (''Failed to open file: '' @ filePath)) s1
                    | None \<Rightarrow> (emit n s1)\<lparr>openFiles := insert u (openFiles s1)\<rparr>)))"

text \<open>
  \<open>didOpen\<close> between its points of suspension. The method tests \<open>openFiles.has(uri)\<close>,
  awaits \<open>fs.readFile\<close>, awaits \<open>sendNotification\<close> and only then executes
  \<open>openFiles.add(uri)\<close>; while it waits, another call can run. A call in progress is a
  task: it has not started (\<open>Begin\<close>), it waits for the read, whose outcome is decided
  (\<open>AwaitRead\<close>), it waits for the notification, which has been written or has failed
  (\<open>AwaitNotification\<close>), or it has returned (\<open>Finished\<close>). A step runs the task to its
  next point of suspension.
\<close>

datatype open_task = Begin | AwaitRead "error + string" | AwaitNotification "error option" | Finished

definition didOpen_step :: "world \<Rightarrow> string \<Rightarrow> open_task \<Rightarrow> lsp_state \<Rightarrow> open_task \<times> lsp_state" where
  "didOpen_step w filePath t s =
     (let fullPath = path_resolve w [rootPath s, filePath];
          u = ''file://'' @ fullPath
      in case t of
           Begin \<Rightarrow>
             if u \<in> openFiles s then (Finished, s)
             else (AwaitRead (fs_readFile w (trace s) fullPath), emit (ReadFile fullPath) s)
         | AwaitRead (Inl e) \<Rightarrow>
             (Finished, emit (Console_error (''Failed to open file: '' @ filePath)) s)
         | AwaitRead (Inr content) \<Rightarrow>
             (let n = Notification_didOpen u (getLanguageId filePath) 1 content
              in (case sendNotification w (trace s) n of
                    Some e \<Rightarrow> (AwaitNotification (Some e), s)
                  | None \<Rightarrow> (AwaitNotification None, emit n s)))
         | AwaitNotification (Some e) \<Rightarrow>
             (Finished, emit (Console_error (''Failed to open file: '' @ filePath)) s)
         | AwaitNotification None \<Rightarrow> (Finished, s\<lparr>openFiles := insert u (openFiles s)\<rparr>)
         | Finished \<Rightarrow> (Finished, s))"

text \<open>
  Several calls of \<open>didOpen\<close> in progress at once, each with its file path: a schedule
  names, step by step, the call that runs next. \<open>run_pool\<close> runs a schedule.
\<close>

definition pool_step ::
  "world \<Rightarrow> nat \<Rightarrow> (string \<times> open_task) list \<times> lsp_state
    \<Rightarrow> (string \<times> open_task) list \<times> lsp_state" where
  "pool_step w i c =
     (case c of (tasks, s) \<Rightarrow>
        if i < length tasks
        then (case tasks ! i of (filePath, t) \<Rightarrow>
                (case didOpen_step w filePath t s of
                   (t', s') \<Rightarrow> (tasks[i := (filePath, t')], s')))
        else (tasks, s))"

definition run_pool ::
  "world \<Rightarrow> nat list \<Rightarrow> (string \<times> open_task) list \<times> lsp_state
    \<Rightarrow> (string \<times> open_task) list \<times> lsp_state" where
  "run_pool w schedule c = fold (pool_step w) schedule c"

definition getDefinition ::
  "world \<Rightarrow> string \<Rightarrow> jsnumber \<Rightarrow> jsnumber \<Rightarrow> lsp_state
    \<Rightarrow> (error + definition_result option) \<times> lsp_state" where
  "getDefinition w filePath ln ch s =
     (case ensureInitialized w s of
        (Inl e, s1) \<Rightarrow> (Inl e, s1)
      | (Inr ok, s1) \<Rightarrow>
          let s2 = didOpen w filePath s1;
              u = ''file://'' @ path_resolve w [rootPath s2, filePath]
          in (request_definition w (trace s2) u ln ch, emit (Request_definition u ln ch) s2))"

definition getReferences ::
  "world \<Rightarrow> string \<Rightarrow> jsnumber \<Rightarrow> jsnumber \<Rightarrow> lsp_state
    \<Rightarrow> (error + location list option) \<times> lsp_state" where
  "getReferences w filePath ln ch s =
     (case ensureInitialized w s of
        (Inl e, s1) \<Rightarrow> (Inl e, s1)
      | (Inr ok, s1) \<Rightarrow>
          let s2 = didOpen w filePath s1;
              u = ''file://'' @ path_resolve w [rootPath s2, filePath]
          in (request_references w (trace s2) u ln ch, emit (Request_references u ln ch) s2))"

definition getHover ::
  "world \<Rightarrow> string \<Rightarrow> jsnumber \<Rightarrow> jsnumber \<Rightarrow> lsp_state
    \<Rightarrow> (error + string option) \<times> lsp_state" where
  "getHover w filePath ln ch s =
     (case ensureInitialized w s of
        (Inl e, s1) \<Rightarrow> (Inl e, s1)
      | (Inr ok, s1) \<Rightarrow>
          let s2 = didOpen w filePath s1;
              u = ''file://'' @ path_resolve w [rootPath s2, filePath]
          in (request_hover w (trace s2) u ln ch, emit (Request_hover u ln ch) s2))"

definition getDocumentSymbols ::
  "world \<Rightarrow> string \<Rightarrow> lsp_state \<Rightarrow> (error + symbol list option) \<times> lsp_state" where
  "getDocumentSymbols w filePath s =
     (case ensureInitialized w s of
        (Inl e, s1) \<Rightarrow> (Inl e, s1)
      | (Inr ok, s1) \<Rightarrow>
          let s2 = didOpen w filePath s1;
              u = ''file://'' @ path_resolve w [rootPath s2, filePath]
          in (request_documentSymbol w (trace s2) u, emit (Request_documentSymbol u) s2))"

text \<open>
  The four query operations under one name, with the result dropped: what is left is
  whether the operation threw, and the state it leaves.
\<close>

datatype query =
    Definition jsnumber jsnumber
  | References jsnumber jsnumber
  | Hover jsnumber jsnumber
  | DocumentSymbols

definition run_query :: "world \<Rightarrow> query \<Rightarrow> string \<Rightarrow> lsp_state \<Rightarrow> error option \<times> lsp_state" where
  "run_query w q filePath s =
     (case q of
        Definition ln ch \<Rightarrow>
          (case getDefinition w filePath ln ch s of
             (Inl e, s') \<Rightarrow> (Some e, s') | (Inr r, s') \<Rightarrow> (None, s'))
      | References ln ch \<Rightarrow>
          (case getReferences w filePath ln ch s of
             (Inl e, s') \<Rightarrow> (Some e, s') | (Inr r, s') \<Rightarrow> (None, s'))
      | Hover ln ch \<Rightarrow>
          (case getHover w filePath ln ch s of
             (Inl e, s') \<Rightarrow> (Some e, s') | (Inr r, s') \<Rightarrow> (None, s'))
      | DocumentSymbols \<Rightarrow>
          (case getDocumentSymbols w filePath s of
             (Inl e, s') \<Rightarrow> (Some e, s') | (Inr r, s') \<Rightarrow> (None, s')))"

text \<open>Counting in a trace: handshake requests, and open-notifications for one URI.\<close>

fun is_didOpen :: "string \<Rightarrow> event \<Rightarrow> bool" where
  "is_didOpen u (Notification_didOpen u' l v t) = (u' = u)"
| "is_didOpen u e = False"

definition didOpen_count :: "string \<Rightarrow> event list \<Rightarrow> nat" where
  "didOpen_count u tr = length (filter (is_didOpen u) tr)"

fun is_handshake :: "event \<Rightarrow> bool" where
  "is_handshake (Request_initialize r) = True"
| "is_handshake e = False"

definition handshake_count :: "event list \<Rightarrow> nat" where
  "handshake_count tr = length (filter is_handshake tr)"

fun is_read :: "string \<Rightarrow> event \<Rightarrow> bool" where
  "is_read p (ReadFile p') = (p' = p)"
| "is_read p e = False"

definition read_count :: "string \<Rightarrow> event list \<Rightarrow> nat" where
  "read_count p tr = length (filter (is_read p) tr)"

section \<open>Argument validation (zod schemas of the tool handlers)\<close>

text \<open>
  \<open>z.object({...}).parse(args)\<close>: the argument must be an object, every key of the shape
  is validated (a missing key is \<open>undefined\<close>), the issues of all keys are collected and
  thrown as one \<open>ZodError\<close>. \<open>z.string()\<close> accepts exactly the strings;
  \<open>z.union([z.string(), z.number()]).transform(val => Number(val))\<close> accepts every string
  and every number and converts the value with \<open>Number\<close>.
\<close>

definition obj_get :: "(string \<times> json) list \<Rightarrow> string \<Rightarrow> json" where
  "obj_get kvs k = (case map_of kvs k of None \<Rightarrow> JUndefined | Some v \<Rightarrow> v)"

fun z_string :: "string list \<Rightarrow> json \<Rightarrow> zod_issue list + string" where
  "z_string path (JString v) = Inr v"
| "z_string path v = Inl [invalid_type path]"

fun z_string_or_number :: "string list \<Rightarrow> json \<Rightarrow> zod_issue list + jsnumber" where
  "z_string_or_number path (JString v) = Inr (StringToNumber v)"
| "z_string_or_number path (JNumber n) = Inr (Num n)"
| "z_string_or_number path v = Inl [invalid_union path]"

fun issues_of :: "zod_issue list + 'a \<Rightarrow> zod_issue list" where
  "issues_of (Inl is) = is"
| "issues_of (Inr v) = []"

definition parse_position_args :: "json \<Rightarrow> error + string \<times> jsnumber \<times> jsnumber" where
  "parse_position_args args =
     (case args of
        JObject kvs \<Rightarrow>
          (let f = z_string [''filePath''] (obj_get kvs ''filePath'');
               l = z_string_or_number [''line''] (obj_get kvs ''line'');
               c = z_string_or_number [''character''] (obj_get kvs ''character'')
           in (case (f, l, c) of
                 (Inr filePath, Inr ln, Inr ch) \<Rightarrow> Inr (filePath, ln, ch)
               | other \<Rightarrow> Inl (ZodError (issues_of f @ issues_of l @ issues_of c))))
      | other \<Rightarrow> Inl (ZodError [invalid_type []]))"

definition parse_search_args :: "json \<Rightarrow> error + string \<times> string" where
  "parse_search_args args =
     (case args of
        JObject kvs \<Rightarrow>
          (let f = z_string [''filePath''] (obj_get kvs ''filePath'');
               q = z_string [''query''] (obj_get kvs ''query'')
           in (case (f, q) of
                 (Inr filePath, Inr query) \<Rightarrow> Inr (filePath, query)
               | other \<Rightarrow> Inl (ZodError (issues_of f @ issues_of q))))
      | other \<Rightarrow> Inl (ZodError [invalid_type []]))"

definition parse_call_args :: "json \<Rightarrow> error + string \<times> string \<times> string \<times> string" where
  "parse_call_args args =
     (case args of
        JObject kvs \<Rightarrow>
          (let sf = z_string [''sourceFile''] (obj_get kvs ''sourceFile'');
               sn = z_string [''sourceFunction''] (obj_get kvs ''sourceFunction'');
               tf = z_string [''targetFile''] (obj_get kvs ''targetFile'');
               tn = z_string [''targetFunction''] (obj_get kvs ''targetFunction'')
           in (case (sf, sn, tf, tn) of
                 (Inr sourceFile, Inr sourceFunction, Inr targetFile, Inr targetFunction) \<Rightarrow>
                   Inr (sourceFile, sourceFunction, targetFile, targetFunction)
               | other \<Rightarrow>
                   Inl (ZodError (issues_of sf @ issues_of sn @ issues_of tf @ issues_of tn))))
      | other \<Rightarrow> Inl (ZodError [invalid_type []]))"

section \<open>The tool handlers\<close>

definition text_result :: "string \<Rightarrow> tool_result" where
  "text_result t = \<lparr>content_text = t, isError = False\<rparr>"

definition formatLocation :: "location \<Rightarrow> string" where
  "formatLocation loc =
     (let u = (if startsWith (uri loc) ''file://'' then drop 7 (uri loc) else uri loc)
      in ''File: '' @ u @ [CHR 0x0A] @ ''Line: '' @ digits_of (line (start (range' loc)))
           @ '', Character: '' @ digits_of (character (start (range' loc))))"

definition handleGetDefinition ::
  "world \<Rightarrow> json \<Rightarrow> lsp_state \<Rightarrow> (error + tool_result) \<times> lsp_state" where
  "handleGetDefinition w args s =
     (case parse_position_args args of
        Inl e \<Rightarrow> (Inl e, s)
      | Inr (filePath, ln, ch) \<Rightarrow>
          (case getDefinition w filePath ln ch s of
             (Inl e, s') \<Rightarrow> (Inl e, s')
           | (Inr None, s') \<Rightarrow> (Inr (text_result ''No definition found.''), s')
           | (Inr (Some (Multiple locs)), s') \<Rightarrow>
               (Inr (text_result (js_join [CHR 0x0A, CHR 0x0A] (map formatLocation locs))), s')
           | (Inr (Some (Single loc)), s') \<Rightarrow> (Inr (text_result (formatLocation loc)), s')))"

definition handleGetReferences ::
  "world \<Rightarrow> json \<Rightarrow> lsp_state \<Rightarrow> (error + tool_result) \<times> lsp_state" where
  "handleGetReferences w args s =
     (case parse_position_args args of
        Inl e \<Rightarrow> (Inl e, s)
      | Inr (filePath, ln, ch) \<Rightarrow>
          (case getReferences w filePath ln ch s of
             (Inl e, s') \<Rightarrow> (Inl e, s')
           | (Inr None, s') \<Rightarrow> (Inr (text_result ''null''), s')
           | (Inr (Some locs), s') \<Rightarrow> (Inr (text_result (JSON_stringify_locations w locs)), s')))"

text \<open>
  The inner \<open>while\<close> loop of \<open>handleSearchInFile\<close> on line \<open>i\<close>: it need not terminate,
  so not returning is the value \<open>None\<close>.
\<close>

partial_function (option) search_while ::
  "string \<Rightarrow> string \<Rightarrow> nat \<Rightarrow> int \<Rightarrow> search_match list \<Rightarrow> search_match list option" where
  "search_while ln query i index matches =
     (if index \<noteq> - 1
      then search_while ln query i (indexOf ln query (index + 1))
             (matches @ [\<lparr>match_line = i, match_character = index, match_text = trim ln\<rparr>])
      else Some matches)"

declare search_while.simps [code]

text \<open>The \<open>for\<close> loop over the lines, from line number \<open>i\<close> on.\<close>

fun search_for ::
  "string list \<Rightarrow> string \<Rightarrow> nat \<Rightarrow> search_match list \<Rightarrow> search_match list option" where
  "search_for [] query i matches = Some matches"
| "search_for (ln # rest) query i matches =
     (case search_while ln query i (indexOf ln query 0) matches of
        None \<Rightarrow> None
      | Some matches' \<Rightarrow> search_for rest query (Suc i) matches')"

definition search_text :: "world \<Rightarrow> search_match list \<Rightarrow> string" where
  "search_text w matches =
     ''Found '' @ digits_of (length matches)
       @ '' matches (coordinates are 0-based, ready for use with get_definition/get_references):''
       @ [CHR 0x0A] @ JSON_stringify_matches w matches"

definition handleSearchInFile ::
  "world \<Rightarrow> json \<Rightarrow> lsp_state \<Rightarrow> ((error + tool_result) \<times> lsp_state) option" where
  "handleSearchInFile w args s =
     (case parse_search_args args of
        Inl e \<Rightarrow> Some (Inl e, s)
      | Inr (filePath, query) \<Rightarrow>
          (case fs_readFile w (trace s) filePath of
             Inl e \<Rightarrow> Some (Inl e, emit (ReadFile filePath) s)
           | Inr content \<Rightarrow>
               (case search_for (split_lines content) query 0 [] of
                  None \<Rightarrow> None
                | Some matches \<Rightarrow>
                    Some (Inr (text_result (search_text w matches)), emit (ReadFile filePath) s))))"

text \<open>
  \<open>findSymbol\<close>: depth-first, a node before its children, the children before the later
  siblings; the first node with the name is returned.
\<close>

fun findSymbol :: "symbol list \<Rightarrow> string \<Rightarrow> symbol option" where
  "findSymbol [] n = None"
| "findSymbol (Symbol nm r sr loc ch # symbols) n =
     (if nm = n then Some (Symbol nm r sr loc ch)
      else (case ch of
              None \<Rightarrow> findSymbol symbols n
            | Some cs \<Rightarrow>
                (case findSymbol cs n of
                   Some found \<Rightarrow> Some found
                 | None \<Rightarrow> findSymbol symbols n)))"

text \<open>
  The two \<open>if\<close>/\<open>else if\<close> chains of \<open>handleCheckFunctionCall\<close>: the position of the
  target symbol is the start of its \<open>selectionRange\<close>, else the start of its
  \<open>location.range\<close>; the range of the source symbol is its \<open>range\<close>, else its
  \<open>location.range\<close>. \<open>None\<close> is the final \<open>else\<close>, which returns a message.
\<close>

definition target_position :: "symbol \<Rightarrow> position option" where
  "target_position targetSym =
     (case selectionRange targetSym of
        Some sel \<Rightarrow> Some (start sel)
      | None \<Rightarrow>
          (case sym_location targetSym of
             Some loc \<Rightarrow> Some (start (range' loc))
           | None \<Rightarrow> None))"

definition source_range :: "symbol \<Rightarrow> lsp_range option" where
  "source_range sourceSym =
     (case sym_range sourceSym of
        Some r \<Rightarrow> Some r
      | None \<Rightarrow>
          (case sym_location sourceSym of
             Some loc \<Rightarrow> Some (range' loc)
           | None \<Rightarrow> None))"

definition handleCheckFunctionCall ::
  "world \<Rightarrow> json \<Rightarrow> lsp_state \<Rightarrow> (error + tool_result) \<times> lsp_state" where
  "handleCheckFunctionCall w args s =
     (case parse_call_args args of
        Inl e \<Rightarrow> (Inl e, s)
      | Inr (sourceFile, sourceFunction, targetFile, targetFunction) \<Rightarrow>
     (case getDocumentSymbols w sourceFile s of
        (Inl e, s1) \<Rightarrow> (Inl e, s1)
      | (Inr None, s1) \<Rightarrow> (Inr (text_result ''Source file symbols not found''), s1)
      | (Inr (Some sourceSymbols), s1) \<Rightarrow>
     (case findSymbol sourceSymbols sourceFunction of
        None \<Rightarrow>
          (Inr (text_result
             (''Source function '' @ [CHR 0x27] @ sourceFunction @ [CHR 0x27] @ '' not found in ''
                @ sourceFile)), s1)
      | Some sourceSym \<Rightarrow>
     (case getDocumentSymbols w targetFile s1 of
        (Inl e, s2) \<Rightarrow> (Inl e, s2)
      | (Inr None, s2) \<Rightarrow> (Inr (text_result ''Target file symbols not found''), s2)
      | (Inr (Some targetSymbols), s2) \<Rightarrow>
     (case findSymbol targetSymbols targetFunction of
        None \<Rightarrow>
          (Inr (text_result
             (''Target function '' @ [CHR 0x27] @ targetFunction @ [CHR 0x27] @ '' not found in ''
                @ targetFile)), s2)
      | Some targetSym \<Rightarrow>
     (case target_position targetSym of
        None \<Rightarrow> (Inr (text_result ''Could not determine location of target symbol''), s2)
      | Some target \<Rightarrow>
     (case getReferences w targetFile (Num (int (line target))) (Num (int (character target))) s2 of
        (Inl e, s3) \<Rightarrow> (Inl e, s3)
      | (Inr None, s3) \<Rightarrow> (Inr (text_result ''No references found for target function''), s3)
      | (Inr (Some references), s3) \<Rightarrow>
     (case source_range sourceSym of
        None \<Rightarrow> (Inr (text_result ''Could not determine range of source symbol''), s3)
      | Some sourceRange \<Rightarrow>
          (let calls = filter (\<lambda>ref. isLocationInRange w ref sourceRange sourceFile) references
           in if length calls > 0
              then (Inr (text_result
                      (''Yes, '' @ [CHR 0x27] @ sourceFunction @ [CHR 0x27] @ '' calls ''
                         @ [CHR 0x27] @ targetFunction @ [CHR 0x27] @ '' ''
                         @ digits_of (length calls) @ '' times.'' @ [CHR 0x0A] @ ''Locations: ''
                         @ JSON_stringify_locations w calls)), s3)
              else (Inr (text_result
                      (''No direct call found from '' @ [CHR 0x27] @ sourceFunction @ [CHR 0x27]
                         @ '' to '' @ [CHR 0x27] @ targetFunction @ [CHR 0x27] @ ''.'')), s3))))))))))"

text \<open>
  The handler of \<open>CallToolRequestSchema\<close>: the dispatch on the tool name inside one
  \<open>try\<close>, whose \<open>catch\<close> turns every thrown error into a result with the error flag.
\<close>

definition callTool ::
  "world \<Rightarrow> string \<Rightarrow> json \<Rightarrow> lsp_state \<Rightarrow> (tool_result \<times> lsp_state) option" where
  "callTool w tool args s =
     (let r = (if tool = ''get_definition'' then Some (handleGetDefinition w args s)
               else if tool = ''get_references'' then Some (handleGetReferences w args s)
               else if tool = ''search_in_file'' then handleSearchInFile w args s
               else if tool = ''check_function_call'' then Some (handleCheckFunctionCall w args s)
               else Some (Inl (McpError (- 32601) (''Unknown tool: '' @ tool)), s))
      in (case r of
            None \<Rightarrow> None
          | Some (Inl e, s') \<Rightarrow>
              Some (\<lparr>content_text = ''Error: '' @ message w e, isError = True\<rparr>, s')
          | Some (Inr res, s') \<Rightarrow> Some (res, s')))"

section \<open>Notions used to state the properties of the client\<close>

text \<open>The URI under which the client addresses a file, and the request a query sends.\<close>

definition file_uri :: "world \<Rightarrow> lsp_state \<Rightarrow> string \<Rightarrow> string" where
  "file_uri w s filePath = ''file://'' @ path_resolve w [rootPath s, filePath]"

definition query_event :: "query \<Rightarrow> string \<Rightarrow> event" where
  "query_event q u =
     (case q of
        Definition ln ch \<Rightarrow> Request_definition u ln ch
      | References ln ch \<Rightarrow> Request_references u ln ch
      | Hover ln ch \<Rightarrow> Request_hover u ln ch
      | DocumentSymbols \<Rightarrow> Request_documentSymbol u)"

text \<open>The error, if any, with which the server answers the request of a query.\<close>

definition query_error :: "world \<Rightarrow> query \<Rightarrow> event list \<Rightarrow> string \<Rightarrow> error option" where
  "query_error w q tr u =
     (case q of
        Definition ln ch \<Rightarrow>
          (case request_definition w tr u ln ch of Inl e \<Rightarrow> Some e | Inr r \<Rightarrow> None)
      | References ln ch \<Rightarrow>
          (case request_references w tr u ln ch of Inl e \<Rightarrow> Some e | Inr r \<Rightarrow> None)
      | Hover ln ch \<Rightarrow>
          (case request_hover w tr u ln ch of Inl e \<Rightarrow> Some e | Inr r \<Rightarrow> None)
      | DocumentSymbols \<Rightarrow>
          (case request_documentSymbol w tr u of Inl e \<Rightarrow> Some e | Inr r \<Rightarrow> None))"

text \<open>
  The invariant of the open-file set: a URI in the set has been announced exactly once,
  a URI outside it never.
\<close>

definition open_inv :: "lsp_state \<Rightarrow> bool" where
  "open_inv s = (\<forall>u. didOpen_count u (trace s) = (if u \<in> openFiles s then 1 else 0))"

text \<open>
  What remains of the invariant when calls overlap: a URI in the set has been announced
  at least once; and a call that waits for its delivered notification has announced its
  URI.
\<close>

definition announced :: "lsp_state \<Rightarrow> bool" where
  "announced s = (\<forall>u \<in> openFiles s. 1 \<le> didOpen_count u (trace s))"

definition task_inv :: "world \<Rightarrow> lsp_state \<Rightarrow> string \<times> open_task \<Rightarrow> bool" where
  "task_inv w s ft =
     (snd ft = AwaitNotification None \<longrightarrow> 1 \<le> didOpen_count (file_uri w s (fst ft)) (trace s))"

definition pool_inv :: "world \<Rightarrow> (string \<times> open_task) list \<times> lsp_state \<Rightarrow> bool" where
  "pool_inv w c = (announced (snd c) \<and> (\<forall>ft \<in> set (fst c). task_inv w (snd c) ft))"

text \<open>In state \<open>s\<close> the file can be read and its open-notification is delivered.\<close>

definition open_succeeds :: "world \<Rightarrow> string \<Rightarrow> lsp_state \<Rightarrow> bool" where
  "open_succeeds w filePath s =
     (let fullPath = path_resolve w [rootPath s, filePath]
      in case fs_readFile w (trace s) fullPath of
           Inl e \<Rightarrow> False
         | Inr content \<Rightarrow>
             sendNotification w (trace s @ [ReadFile fullPath])
               (Notification_didOpen (''file://'' @ fullPath) (getLanguageId filePath) 1 content)
             = None)"



section \<open>Notions used to state the properties of the search\<close>

text \<open>The indices at which a query occurs in a line, and the matches of a whole file.\<close>

definition occurs_at :: "string \<Rightarrow> string \<Rightarrow> nat \<Rightarrow> bool" where
  "occurs_at q ln c = (take (length q) (drop c ln) = q)"

definition occurrences :: "string \<Rightarrow> string \<Rightarrow> nat list" where
  "occurrences q ln = filter (occurs_at q ln) [0..<Suc (length ln)]"

fun all_matches :: "string list \<Rightarrow> string \<Rightarrow> nat \<Rightarrow> search_match list" where
  "all_matches [] q i = []"
| "all_matches (ln # rest) q i =
     map (\<lambda>c. \<lparr>match_line = i, match_character = int c, match_text = trim ln\<rparr>) (occurrences q ln)
       @ all_matches rest q (Suc i)"

section \<open>Notions used to state the properties of the tools\<close>

text \<open>The nodes of an outline in depth-first order, a node before its children.\<close>

fun preorder :: "symbol list \<Rightarrow> symbol list" where
  "preorder [] = []"
| "preorder (Symbol nm r sr loc ch # symbols) =
     Symbol nm r sr loc ch # (case ch of None \<Rightarrow> [] | Some cs \<Rightarrow> preorder cs) @ preorder symbols"

text \<open>
  The arguments that the schema of \<open>get_definition\<close> and \<open>get_references\<close> accepts: an
  object whose \<open>filePath\<close> is a string and whose \<open>line\<close> and \<open>character\<close> are each a
  string or a number.
\<close>

fun is_string :: "json \<Rightarrow> bool" where
  "is_string (JString v) = True"
| "is_string v = False"

fun is_string_or_number :: "json \<Rightarrow> bool" where
  "is_string_or_number (JString v) = True"
| "is_string_or_number (JNumber n) = True"
| "is_string_or_number v = False"

definition well_typed_position_args :: "json \<Rightarrow> bool" where
  "well_typed_position_args args =
     (case args of
        JObject kvs \<Rightarrow>
          is_string (obj_get kvs ''filePath'') \<and> is_string_or_number (obj_get kvs ''line'')
          \<and> is_string_or_number (obj_get kvs ''character'')
      | other \<Rightarrow> False)"

text \<open>
  The arguments with which a tool handler is entered. The server hands the handler the
  \<open>arguments\<close> member of a \<open>tools/call\<close> request only after the request has passed the
  request schema of the protocol library, where \<open>arguments\<close> is an optional record: the
  member is absent (\<open>undefined\<close>) or an object. A request whose \<open>arguments\<close> is \<open>null\<close>, an
  array or a primitive value is answered by the library and never reaches a handler.
\<close>

fun is_request_arguments :: "json \<Rightarrow> bool" where
  "is_request_arguments JUndefined = True"
| "is_request_arguments (JObject kvs) = True"
| "is_request_arguments v = False"

section \<open>An executable environment for concrete evaluations\<close>

text \<open>
  \<open>posix_resolve cwd\<close> is an instance of \<open>path.resolve\<close> on POSIX paths: the arguments
  are taken from the right up to the first absolute one (the working directory if there
  is none), and the segments \<open>.\<close>, \<open>..\<close> and the empty segment are normalised away.
\<close>

fun normalize_segments :: "string list \<Rightarrow> string list \<Rightarrow> string list" where
  "normalize_segments acc [] = rev acc"
| "normalize_segments acc (seg # segs) =
     (if seg = [] \<or> seg = ''.'' then normalize_segments acc segs
      else if seg = ''..'' then normalize_segments (tl acc) segs
      else normalize_segments (seg # acc) segs)"

fun resolve_from_right :: "string list \<Rightarrow> string" where
  "resolve_from_right [] = []"
| "resolve_from_right (p # ps) =
     (if p = [] then resolve_from_right ps
      else if hd p = CHR ''/'' then p
      else resolve_from_right ps @ ''/'' @ p)"

definition posix_resolve :: "string \<Rightarrow> string list \<Rightarrow> string" where
  "posix_resolve cwd args =
     ''/'' @ js_join ''/''
       (normalize_segments [] (split_at CHR ''/'' [] (resolve_from_right (rev (cwd # args)))))"

text \<open>
  A world rooted at \<open>/p\<close> in which the handshake succeeds, the file \<open>/p/a.ts\<close> can be
  read, every notification is delivered and the server has nothing to report.
\<close>

definition demo_world :: world where
  "demo_world =
     \<lparr>PROJECT_ROOT = ''/p'',
      path_resolve = posix_resolve ''/p'',
      JSON_stringify_locations = (\<lambda>ls. ''<'' @ digits_of (length ls) @ '' locations>''),
      JSON_stringify_matches = (\<lambda>ms. ''<'' @ digits_of (length ms) @ '' matches>''),
      ZodError_message = (\<lambda>issues. ''<'' @ digits_of (length issues) @ '' issues>''),
      McpError_message = (\<lambda>code m. ''MCP error: '' @ m),
      fs_readFile = (\<lambda>tr p. if p = ''/p/a.ts'' then Inr ''function f() {}''
                             else Inl (Error ''ENOENT'')),
      sendNotification = (\<lambda>tr n. None),
      request_initialize = (\<lambda>tr root. Inr ''capabilities''),
      request_definition = (\<lambda>tr u l c. Inr None),
      request_references = (\<lambda>tr u l c. Inr None),
      request_hover = (\<lambda>tr u l c. Inr None),
      request_documentSymbol = (\<lambda>tr u. Inr None)\<rparr>"



text \<open>The same world, except that a file cannot be read at the first attempt.\<close>

definition late_file_world :: world where
  "late_file_world =
     demo_world\<lparr>fs_readFile :=
       (\<lambda>tr p. if read_count p tr = 0 then Inl (Error ''ENOENT'') else Inr ''export {}'')\<rparr>"

text \<open>The state of a fresh client after a successful handshake in these worlds.\<close>

definition ready_state :: lsp_state where
  "ready_state =
     \<lparr>rootPath = ''/p'', isInitialized = True, openFiles = {},
      trace = [Console_error ''Initializing LSP connection...'',
               Console_error ''Sending initialize request...'',
               Request_initialize ''file:///p'',
               Console_error ''Initialize request successful.'',
               Notification_initialized]\<rparr>"

text \<open>
  A world whose server knows an outline with the functions \<open>main\<close> (with a nested
  \<open>helper\<close>) and \<open>add\<close>, and answers every reference request with the empty list; and
  the same world with the answer \<open>null\<close> to every reference request.
\<close>

definition demo_outline :: "symbol list" where
  "demo_outline =
     [Symbol ''main''
        (Some \<lparr>start = \<lparr>line = 0, character = 0\<rparr>, end' = \<lparr>line = 5, character = 1\<rparr>\<rparr>)
        (Some \<lparr>start = \<lparr>line = 0, character = 9\<rparr>, end' = \<lparr>line = 0, character = 13\<rparr>\<rparr>)
        None
        (Some [Symbol ''helper''
                 (Some \<lparr>start = \<lparr>line = 1, character = 2\<rparr>, end' = \<lparr>line = 3, character = 3\<rparr>\<rparr>)
                 (Some \<lparr>start = \<lparr>line = 1, character = 11\<rparr>, end' = \<lparr>line = 1, character = 17\<rparr>\<rparr>)
                 None None]),
      Symbol ''add''
        (Some \<lparr>start = \<lparr>line = 7, character = 0\<rparr>, end' = \<lparr>line = 9, character = 1\<rparr>\<rparr>)
        (Some \<lparr>start = \<lparr>line = 7, character = 9\<rparr>, end' = \<lparr>line = 7, character = 12\<rparr>\<rparr>)
        None None]"

definition outline_world :: world where
  "outline_world =
     demo_world\<lparr>request_documentSymbol := (\<lambda>tr u. Inr (Some demo_outline)),
                 request_references := (\<lambda>tr u l c. Inr (Some []))\<rparr>"

definition null_references_world :: world where
  "null_references_world = outline_world\<lparr>request_references := (\<lambda>tr u l c. Inr None)\<rparr>"

text \<open>A \<open>check_function_call\<close> request for these worlds, and the states it goes through.\<close>

definition demo_call_args :: json where
  "demo_call_args =
     JObject [(''sourceFile'', JString ''a.ts''), (''sourceFunction'', JString ''main''),
              (''targetFile'', JString ''a.ts''), (''targetFunction'', JString ''add'')]"

definition outline_s1 :: lsp_state where
  "outline_s1 = snd (getDocumentSymbols outline_world ''a.ts'' (new_LspClient outline_world))"

definition outline_s2 :: lsp_state where
  "outline_s2 = snd (getDocumentSymbols outline_world ''a.ts'' outline_s1)"

definition outline_s3 :: lsp_state where
  "outline_s3 = snd (getReferences outline_world ''a.ts'' (Num 7) (Num 9) outline_s2)"

section \<open>Range containment\<close>

lemma isLocationInRange_unfold:
  "isLocationInRange w loc rng fp \<longleftrightarrow>
     (same_path w (uri loc) fp
      \<and> pos_le (start rng) (start (range' loc))
      \<and> pos_le \<lparr>line = line (start (range' loc)), character = character (end' (range' loc))\<rparr>
            (end' rng))"
  by (auto simp: isLocationInRange_def same_path_def pos_le_def Let_def)

text \<open>
  Claim C1, as stated: \<open>isLocationInRange\<close> holds if and only if the two paths resolve to
  the same path and the start position of the location lies within
  \<open>[range.start, range.end]\<close> in line-major order, the start position alone deciding.
  This fails: a reference that starts inside a one-line range and ends beyond the end
  character of the range is rejected.
\<close>

theorem isLocationInRange_start_alone_counterexample:
  "\<not> (isLocationInRange demo_world
         \<lparr>uri = ''file:///p/a.ts'',
          range' = \<lparr>start = \<lparr>line = 5, character = 3\<rparr>, end' = \<lparr>line = 5, character = 20\<rparr>\<rparr>\<rparr>
         \<lparr>start = \<lparr>line = 5, character = 0\<rparr>, end' = \<lparr>line = 5, character = 10\<rparr>\<rparr>
         ''/p/a.ts''
       \<longleftrightarrow>
       (same_path demo_world ''file:///p/a.ts'' ''/p/a.ts''
        \<and> start_within
            \<lparr>uri = ''file:///p/a.ts'',
             range' = \<lparr>start = \<lparr>line = 5, character = 3\<rparr>, end' = \<lparr>line = 5, character = 20\<rparr>\<rparr>\<rparr>
            \<lparr>start = \<lparr>line = 5, character = 0\<rparr>, end' = \<lparr>line = 5, character = 10\<rparr>\<rparr>))"
  by (simp add: isLocationInRange_def same_path_def start_within_def pos_le_def demo_world_def
        posix_resolve_def)

text \<open>
  Claim C1, amended: \<open>isLocationInRange\<close> holds if and only if the two paths resolve to
  the same path, the start position of the location is at or after \<open>range.start\<close> in
  line-major order, and the position made of the location's start line and its END
  character is at or before \<open>range.end\<close>. So the lower bound is tested on the start
  character and the upper bound on the end character, both on the start line.
\<close>

theorem isLocationInRange_characterisation:
  "isLocationInRange w loc rng filePath \<longleftrightarrow>
     (same_path w (uri loc) filePath
      \<and> pos_le (start rng) (start (range' loc))
      \<and> pos_le \<lparr>line = line (start (range' loc)), character = character (end' (range' loc))\<rparr>
            (end' rng))"
  by (rule isLocationInRange_unfold)

text \<open>
  The upper bound is tested on the end character: a location whose start line is the
  last line of the range and whose end character lies beyond the end character of the
  range is not contained, wherever it starts.
\<close>

lemma location_ending_past_range_end:
  "line (start (range' loc)) = line (end' rng) \<Longrightarrow>
   character (end' rng) < character (end' (range' loc)) \<Longrightarrow>
   \<not> isLocationInRange w loc rng filePath"
  by (simp add: isLocationInRange_unfold pos_le_def)




section \<open>The client: initialisation and the open-file set\<close>

lemma emit_simps [simp]:
  "trace (emit e s) = trace s @ [e]"
  "openFiles (emit e s) = openFiles s"
  "isInitialized (emit e s) = isInitialized s"
  "rootPath (emit e s) = rootPath s"
  by (simp_all add: emit_def)


lemma initialize_openFiles [simp]: "openFiles (snd (initialize w s)) = openFiles s"
  by (simp add: initialize_def Let_def split: sum.splits option.splits)

lemma initialize_rootPath [simp]: "rootPath (snd (initialize w s)) = rootPath s"
  by (simp add: initialize_def Let_def split: sum.splits option.splits)




lemma initialize_didOpen_count [simp]:
  "didOpen_count u (trace (snd (initialize w s))) = didOpen_count u (trace s)"
  by (simp add: initialize_def Let_def didOpen_count_def split: sum.splits option.splits)

lemma ensureInitialized_eq:
  "ensureInitialized w s =
     (if isInitialized s then (Inr (), s)
      else (case fst (initialize w s) of Inl e \<Rightarrow> Inl e | Inr r \<Rightarrow> Inr (), snd (initialize w s)))"
  by (simp add: ensureInitialized_def split: prod.splits sum.splits)

lemma didOpen_simps [simp]:
  "isInitialized (didOpen w fp s) = isInitialized s"
  "rootPath (didOpen w fp s) = rootPath s"
  "handshake_count (trace (didOpen w fp s)) = handshake_count (trace s)"
  by (simp_all add: didOpen_def Let_def handshake_count_def split: sum.splits option.splits)

lemma didOpen_mono: "openFiles s \<subseteq> openFiles (didOpen w fp s)"
  by (auto simp: didOpen_def Let_def split: sum.splits option.splits)

lemma run_query_state:
  "snd (run_query w q fp s) =
     (case fst (ensureInitialized w s) of
        Inl e \<Rightarrow> snd (ensureInitialized w s)
      | Inr ok \<Rightarrow>
          emit (query_event q (file_uri w s fp)) (didOpen w fp (snd (ensureInitialized w s))))"
  by (cases q)
    (auto simp: run_query_def getDefinition_def getReferences_def getHover_def
       getDocumentSymbols_def query_event_def file_uri_def Let_def ensureInitialized_eq
       split: prod.splits sum.splits)

lemma run_query_result:
  "fst (run_query w q fp s) =
     (case fst (ensureInitialized w s) of
        Inl e \<Rightarrow> Some e
      | Inr ok \<Rightarrow>
          query_error w q (trace (didOpen w fp (snd (ensureInitialized w s)))) (file_uri w s fp))"
  by (cases q)
    (auto simp: run_query_def getDefinition_def getReferences_def getHover_def
       getDocumentSymbols_def query_error_def file_uri_def Let_def ensureInitialized_eq
       split: prod.splits sum.splits)

lemma query_event_counts [simp]:
  "is_didOpen u (query_event q v) = False"
  "is_handshake (query_event q v) = False"
  "is_read p (query_event q v) = False"
  by (cases q; simp add: query_event_def)+

lemma ensureInitialized_simps [simp]:
  "openFiles (snd (ensureInitialized w s)) = openFiles s"
  "rootPath (snd (ensureInitialized w s)) = rootPath s"
  "didOpen_count u (trace (snd (ensureInitialized w s))) = didOpen_count u (trace s)"
  by (simp_all add: ensureInitialized_eq)

lemma ensureInitialized_ok:
  "fst (ensureInitialized w s) = Inr ok \<Longrightarrow> isInitialized (snd (ensureInitialized w s))"
  by (auto simp: ensureInitialized_def initialize_def Let_def
      split: if_splits sum.splits option.splits prod.splits)

lemma didOpen_count_step:
  "didOpen_count v (trace (didOpen w fp s)) =
     didOpen_count v (trace s)
       + (if v \<in> openFiles (didOpen w fp s) \<and> v \<notin> openFiles s then 1 else 0)"
  by (auto simp: didOpen_def Let_def didOpen_count_def split: sum.splits option.splits)

lemma didOpen_inv: "open_inv s \<Longrightarrow> open_inv (didOpen w fp s)"
  unfolding open_inv_def
proof
  fix v
  assume inv: "\<forall>u. didOpen_count u (trace s) = (if u \<in> openFiles s then 1 else 0)"
  have mono: "v \<in> openFiles s \<Longrightarrow> v \<in> openFiles (didOpen w fp s)"
    using didOpen_mono [of s w fp] by blast
  show "didOpen_count v (trace (didOpen w fp s)) = (if v \<in> openFiles (didOpen w fp s) then 1 else 0)"
    using inv [rule_format, of v] mono by (simp add: didOpen_count_step)
qed

lemma run_query_inv: "open_inv s \<Longrightarrow> open_inv (snd (run_query w q fp s))"
proof -
  assume inv: "open_inv s"
  have a: "open_inv (snd (ensureInitialized w s))"
    using inv by (simp add: open_inv_def)
  have b: "open_inv (emit (query_event q v) (didOpen w fp (snd (ensureInitialized w s))))" for v
    using didOpen_inv [OF a, of w fp] by (simp add: open_inv_def didOpen_count_def)
  show ?thesis
    using a b by (simp add: run_query_state split: sum.splits)
qed

lemma run_query_mono: "openFiles s \<subseteq> openFiles (snd (run_query w q fp s))"
  using didOpen_mono [of "snd (ensureInitialized w s)" w fp]
  by (simp add: run_query_state split: sum.splits)

lemma run_query_rootPath [simp]: "rootPath (snd (run_query w q fp s)) = rootPath s"
  by (simp add: run_query_state split: sum.splits)

lemma new_inv: "open_inv (new_LspClient w)"
  by (simp add: open_inv_def new_LspClient_def didOpen_count_def)

lemma count_snoc [simp]:
  "handshake_count (tr @ [ev]) = handshake_count tr + (if is_handshake ev then 1 else 0)"
  "didOpen_count u (tr @ [ev]) = didOpen_count u tr + (if is_didOpen u ev then 1 else 0)"
  "read_count p (tr @ [ev]) = read_count p tr + (if is_read p ev then 1 else 0)"
  by (simp_all add: handshake_count_def didOpen_count_def read_count_def)

lemma didOpen_succeeds:
  "open_succeeds w fp s \<Longrightarrow> file_uri w s fp \<in> openFiles (didOpen w fp s)"
  by (auto simp: open_succeeds_def didOpen_def file_uri_def Let_def split: sum.splits option.splits)

lemma didOpen_read_fails:
  "file_uri w s fp \<notin> openFiles s \<Longrightarrow>
   fs_readFile w (trace s) (path_resolve w [rootPath s, fp]) = Inl e \<Longrightarrow>
   didOpen w fp s =
     emit (Console_error (''Failed to open file: '' @ fp))
       (emit (ReadFile (path_resolve w [rootPath s, fp])) s)"
  by (simp add: didOpen_def file_uri_def Let_def)

lemma didOpen_read_count:
  "file_uri w s fp \<notin> openFiles s \<Longrightarrow>
   read_count (path_resolve w [rootPath s, fp]) (trace (didOpen w fp s)) =
     Suc (read_count (path_resolve w [rootPath s, fp]) (trace s))"
  by (simp add: didOpen_def file_uri_def Let_def read_count_def split: sum.splits option.splits)

lemma initialize_read_count [simp]:
  "read_count p (trace (snd (initialize w s))) = read_count p (trace s)"
  by (simp add: initialize_def Let_def read_count_def split: sum.splits option.splits)

lemma run_query_initialized:
  "isInitialized s \<Longrightarrow>
   run_query w q fp s =
     (query_error w q (trace (didOpen w fp s)) (file_uri w s fp),
      emit (query_event q (file_uri w s fp)) (didOpen w fp s))"
  using run_query_result [of w q fp s] run_query_state [of w q fp s]
  by (simp add: ensureInitialized_eq prod_eq_iff)




lemma didOpen_closed:
  "file_uri w s fp \<notin> openFiles s \<Longrightarrow>
   file_uri w s fp \<in> openFiles (didOpen w fp s) \<longleftrightarrow> open_succeeds w fp s"
  by (auto simp: open_succeeds_def didOpen_def file_uri_def Let_def split: sum.splits option.splits)

lemma ensureInitialized_initialized:
  "isInitialized s \<Longrightarrow> ensureInitialized w s = (Inr (), s)"
  by (simp add: ensureInitialized_def)

text \<open>
  Claim C9: when the file read inside \<open>didOpen\<close> fails, the error is logged and
  swallowed, the request of the query is still sent and its answer is the result of the
  operation, and the URI is not added to the open-file set. So the next query against
  the file reads it again, and announces it and adds the URI if the read and the
  notification then succeed.
\<close>

theorem failed_read_leaves_file_closed:
  assumes init: "ensureInitialized w s = (Inr (), s0)"
    and closed: "file_uri w s filePath \<notin> openFiles s"
    and fails: "fs_readFile w (trace s0) (path_resolve w [rootPath s, filePath]) = Inl e"
  shows "openFiles (snd (run_query w q filePath s)) = openFiles s
       \<and> trace (snd (run_query w q filePath s)) =
           trace s0 @ [ReadFile (path_resolve w [rootPath s, filePath]),
                       Console_error (''Failed to open file: '' @ filePath),
                       query_event q (file_uri w s filePath)]
       \<and> fst (run_query w q filePath s) =
           query_error w q
             (trace s0 @ [ReadFile (path_resolve w [rootPath s, filePath]),
                          Console_error (''Failed to open file: '' @ filePath)])
             (file_uri w s filePath)
       \<and> (\<forall>q'. read_count (path_resolve w [rootPath s, filePath])
                  (trace (snd (run_query w q' filePath (snd (run_query w q filePath s)))))
                = Suc (read_count (path_resolve w [rootPath s, filePath])
                        (trace (snd (run_query w q filePath s)))))
       \<and> (\<forall>q'. open_succeeds w filePath (snd (run_query w q filePath s)) \<longrightarrow>
                file_uri w s filePath
                  \<in> openFiles (snd (run_query w q' filePath (snd (run_query w q filePath s))))
                \<and> didOpen_count (file_uri w s filePath)
                    (trace (snd (run_query w q' filePath (snd (run_query w q filePath s)))))
                  = Suc (didOpen_count (file_uri w s filePath)
                          (trace (snd (run_query w q filePath s)))))"
proof -
  let ?p = "path_resolve w [rootPath s, filePath]"
  let ?u = "file_uri w s filePath"
  let ?s1 = "snd (run_query w q filePath s)"
  have s0: "isInitialized s0" "rootPath s0 = rootPath s" "openFiles s0 = openFiles s"
    using ensureInitialized_ok [of w s "()"] ensureInitialized_simps(1,2) [of w s] init
    by simp_all
  have u0: "file_uri w s0 filePath = ?u"
    by (simp add: file_uri_def s0)
  have d: "didOpen w filePath s0 =
             emit (Console_error (''Failed to open file: '' @ filePath)) (emit (ReadFile ?p) s0)"
    using didOpen_read_fails [of w s0 filePath e] closed fails by (simp add: u0 s0)
  have s1: "?s1 = emit (query_event q ?u)
                    (emit (Console_error (''Failed to open file: '' @ filePath))
                       (emit (ReadFile ?p) s0))"
    using init by (simp add: run_query_state d)
  have r1: "fst (run_query w q filePath s) =
              query_error w q (trace s0 @ [ReadFile ?p,
                 Console_error (''Failed to open file: '' @ filePath)]) ?u"
    using init by (simp add: run_query_result d)
  have i1: "isInitialized ?s1" and o1: "openFiles ?s1 = openFiles s" and p1: "rootPath ?s1 = rootPath s"
    by (simp_all add: s1 s0)
  have u1: "file_uri w ?s1 filePath = ?u"
    by (simp add: file_uri_def)
  have c1: "file_uri w ?s1 filePath \<notin> openFiles ?s1"
    using closed by (simp add: u1 o1)
  have next_state: "snd (run_query w q' filePath ?s1) =
                      emit (query_event q' ?u) (didOpen w filePath ?s1)" for q'
    using i1 by (simp only: run_query_initialized snd_conv u1)
  have reads: "read_count ?p (trace (snd (run_query w q' filePath ?s1)))
                 = Suc (read_count ?p (trace ?s1))" for q'
    using didOpen_read_count [OF c1] by (simp add: next_state p1)
  have opens: "open_succeeds w filePath ?s1 \<Longrightarrow>
                 ?u \<in> openFiles (snd (run_query w q' filePath ?s1))
                 \<and> didOpen_count ?u (trace (snd (run_query w q' filePath ?s1)))
                     = Suc (didOpen_count ?u (trace ?s1))" for q'
    using didOpen_closed [OF c1] didOpen_count_step [of ?u w filePath ?s1] c1
    by (simp add: next_state u1)
  show ?thesis
    using reads opens o1 r1 by (simp add: s1)
qed

lemma new_demo:
  "new_LspClient demo_world =
     \<lparr>rootPath = ''/p'', isInitialized = False, openFiles = {}, trace = []\<rparr>"
  by (simp add: new_LspClient_def demo_world_def posix_resolve_def)

lemma new_late: "new_LspClient late_file_world = new_LspClient demo_world"
  by (simp add: new_LspClient_def late_file_world_def)

lemma ensure_demo: "ensureInitialized demo_world (new_LspClient demo_world) = (Inr (), ready_state)"
  by (simp add: new_demo ensureInitialized_def initialize_def ready_state_def emit_def Let_def)
    (simp add: demo_world_def)

lemma ensure_late:
  "ensureInitialized late_file_world (new_LspClient late_file_world) = (Inr (), ready_state)"
  by (simp add: new_late new_demo ensureInitialized_def initialize_def ready_state_def emit_def Let_def)
    (simp add: demo_world_def late_file_world_def)

lemma resolve_demo:
  "path_resolve demo_world [''/p'', ''a.ts''] = ''/p/a.ts''"
  "path_resolve demo_world [''/p'', ''b.ts''] = ''/p/b.ts''"
  "path_resolve demo_world [''/p'', ''missing.ts''] = ''/p/missing.ts''"
  "path_resolve late_file_world = path_resolve demo_world"
  by (simp_all add: demo_world_def late_file_world_def posix_resolve_def)

theorem failed_read_leaves_file_closed_witness:
  "ensureInitialized late_file_world (new_LspClient late_file_world) = (Inr (), ready_state)
   \<and> ''file:///p/b.ts'' \<notin> openFiles (new_LspClient late_file_world)
   \<and> fs_readFile late_file_world (trace ready_state) ''/p/b.ts'' = Inl (Error ''ENOENT'')
   \<and> openFiles (snd (run_query late_file_world (Hover (Num 0) (Num 0)) ''b.ts''
                        (new_LspClient late_file_world))) = {}
   \<and> trace (snd (run_query late_file_world (Hover (Num 0) (Num 0)) ''b.ts''
                    (new_LspClient late_file_world)))
       = trace ready_state @ [ReadFile ''/p/b.ts'', Console_error ''Failed to open file: b.ts'',
                              Request_hover ''file:///p/b.ts'' (Num 0) (Num 0)]
   \<and> ''file:///p/b.ts''
       \<in> openFiles (snd (run_query late_file_world DocumentSymbols ''b.ts''
                          (snd (run_query late_file_world (Hover (Num 0) (Num 0)) ''b.ts''
                                  (new_LspClient late_file_world)))))"
proof -
  let ?s = "new_LspClient late_file_world"
  let ?s1 = "snd (run_query late_file_world (Hover (Num 0) (Num 0)) ''b.ts'' ?s)"
  have root: "rootPath ?s = ''/p''" and opn: "openFiles ?s = {}"
    by (simp_all add: new_late new_demo)
  have u: "file_uri late_file_world ?s ''b.ts'' = ''file:///p/b.ts''"
    by (simp add: file_uri_def root resolve_demo)
  have h2: "file_uri late_file_world ?s ''b.ts'' \<notin> openFiles ?s"
    by (simp add: opn)
  have h3: "fs_readFile late_file_world (trace ready_state)
              (path_resolve late_file_world [rootPath ?s, ''b.ts'']) = Inl (Error ''ENOENT'')"
    by (simp add: root resolve_demo) (simp add: late_file_world_def ready_state_def read_count_def)
  note main = failed_read_leaves_file_closed [OF ensure_late h2 h3, of "Hover (Num 0) (Num 0)"]
  have tr: "trace ?s1 = trace ready_state @ [ReadFile ''/p/b.ts'',
              Console_error ''Failed to open file: b.ts'', Request_hover ''file:///p/b.ts'' (Num 0) (Num 0)]"
    using main by (simp add: root resolve_demo u query_event_def)
  have os: "open_succeeds late_file_world ''b.ts'' ?s1"
    by (simp add: open_succeeds_def tr root resolve_demo Let_def)
      (simp add: late_file_world_def ready_state_def read_count_def demo_world_def)
  show ?thesis
    using main os tr h3 by (simp add: root opn resolve_demo u ensure_late)
qed

lemma ready_simps:
  "rootPath ready_state = ''/p''" "isInitialized ready_state" "openFiles ready_state = {}"
  by (simp_all add: ready_state_def)

lemma didOpen_missing:
  "rootPath s = ''/p'' \<Longrightarrow> openFiles s = {} \<Longrightarrow>
   didOpen demo_world ''missing.ts'' s =
     emit (Console_error ''Failed to open file: missing.ts'') (emit (ReadFile ''/p/missing.ts'') s)"
  by (simp add: didOpen_def resolve_demo Let_def) (simp add: demo_world_def)

subsection \<open>Overlapping calls of didOpen\<close>

lemma didOpen_as_steps:
  "didOpen_step w fp Begin s = (t1, s1) \<Longrightarrow> didOpen_step w fp t1 s1 = (t2, s2) \<Longrightarrow>
   didOpen_step w fp t2 s2 = (t3, s3) \<Longrightarrow> t3 = Finished \<and> s3 = didOpen w fp s"
  by (auto simp: didOpen_step_def didOpen_def Let_def
      split: if_splits sum.splits option.splits open_task.splits)

lemma step_rootPath: "rootPath (snd (didOpen_step w fp t s)) = rootPath s"
  by (simp add: didOpen_step_def Let_def split: sum.splits option.splits open_task.splits)

lemma step_mono: "openFiles s \<subseteq> openFiles (snd (didOpen_step w fp t s))"
  by (auto simp: didOpen_step_def Let_def split: sum.splits option.splits open_task.splits)

lemma step_count_mono: "didOpen_count u (trace s) \<le> didOpen_count u (trace (snd (didOpen_step w fp t s)))"
  by (simp add: didOpen_step_def Let_def split: sum.splits option.splits open_task.splits)

lemma step_announced:
  "announced s \<Longrightarrow> task_inv w s (fp, t) \<Longrightarrow> announced (snd (didOpen_step w fp t s))"
  by (auto simp: announced_def task_inv_def file_uri_def didOpen_step_def Let_def
      split: sum.splits option.splits open_task.splits)

lemma step_task_inv:
  "task_inv w s (fp, t) \<Longrightarrow>
   task_inv w (snd (didOpen_step w fp t s)) (fp, fst (didOpen_step w fp t s))"
  by (auto simp: task_inv_def file_uri_def didOpen_step_def Let_def
      split: sum.splits option.splits open_task.splits)

lemma step_other_task_inv:
  "task_inv w s ft \<Longrightarrow> task_inv w (snd (didOpen_step w fp t s)) ft"
  unfolding task_inv_def file_uri_def step_rootPath
  using step_count_mono [of _ s w fp t] by (blast intro: order_trans)

lemma pool_step_inv: "pool_inv w c \<Longrightarrow> pool_inv w (pool_step w i c)"
proof (cases c)
  case (Pair tasks s)
  assume inv: "pool_inv w c"
  show ?thesis
  proof (cases "i < length tasks")
    case False
    then show ?thesis using inv by (simp add: pool_step_def Pair)
  next
    case True
    obtain fp t where ft: "tasks ! i = (fp, t)" by (cases "tasks ! i")
    obtain t' s' where st: "didOpen_step w fp t s = (t', s')" by (cases "didOpen_step w fp t s")
    have mem: "(fp, t) \<in> set tasks" using True ft by (metis nth_mem)
    have ti: "task_inv w s (fp, t)" using inv mem by (simp add: pool_inv_def Pair)
    have a: "announced s'" using step_announced [OF _ ti, of ] inv st by (simp add: pool_inv_def Pair)
    have b: "task_inv w s' (fp, t')" using step_task_inv [OF ti] st by simp
    have c: "\<forall>ft \<in> set tasks. task_inv w s' ft"
      using inv step_other_task_inv [of w s _ fp t] st by (auto simp: pool_inv_def Pair)
    have "set (tasks[i := (fp, t')]) \<subseteq> insert (fp, t') (set tasks)"
      by (rule set_update_subset_insert)
    then have "\<forall>ft \<in> set (tasks[i := (fp, t')]). task_inv w s' ft"
      using b c by auto
    then show ?thesis using a True ft st by (simp add: pool_step_def Pair pool_inv_def)
  qed
qed

lemma pool_step_mono: "openFiles (snd c) \<subseteq> openFiles (snd (pool_step w i c))"
proof (cases c)
  case (Pair tasks s)
  show ?thesis
  proof (cases "i < length tasks")
    case False
    then show ?thesis by (simp add: pool_step_def Pair)
  next
    case True
    obtain fp t where ft: "tasks ! i = (fp, t)" by (cases "tasks ! i")
    obtain t' s' where st: "didOpen_step w fp t s = (t', s')" by (cases "didOpen_step w fp t s")
    show ?thesis
      using step_mono [of s w fp t] True ft st
      by (simp add: pool_step_def Pair)
  qed
qed

lemma run_pool_inv: "pool_inv w c \<Longrightarrow> pool_inv w (run_pool w schedule c)"
  unfolding run_pool_def
  by (induction schedule arbitrary: c) (simp_all add: pool_step_inv)

lemma run_pool_mono: "openFiles (snd c) \<subseteq> openFiles (snd (run_pool w schedule c))"
  unfolding run_pool_def
proof (induction schedule arbitrary: c)
  case Nil
  then show ?case by simp
next
  case (Cons i schedule)
  show ?case using pool_step_mono [of c w i] Cons [of "pool_step w i c"] by auto
qed

lemma open_inv_announced: "open_inv s \<Longrightarrow> announced s"
  by (simp add: open_inv_def announced_def)

lemma run_pool_sequential:
  "snd (run_pool w [0, 0, 0, 1, 1, 1] ([(fp, Begin), (fp, Begin)], s)) = didOpen w fp (didOpen w fp s)"
proof -
  obtain t1 s1 where 1: "didOpen_step w fp Begin s = (t1, s1)" by (cases "didOpen_step w fp Begin s")
  obtain t2 s2 where 2: "didOpen_step w fp t1 s1 = (t2, s2)" by (cases "didOpen_step w fp t1 s1")
  obtain t3 s3 where 3: "didOpen_step w fp t2 s2 = (t3, s3)" by (cases "didOpen_step w fp t2 s2")
  obtain t4 s4 where 4: "didOpen_step w fp Begin s3 = (t4, s4)" by (cases "didOpen_step w fp Begin s3")
  obtain t5 s5 where 5: "didOpen_step w fp t4 s4 = (t5, s5)" by (cases "didOpen_step w fp t4 s4")
  obtain t6 s6 where 6: "didOpen_step w fp t5 s5 = (t6, s6)" by (cases "didOpen_step w fp t5 s5")
  have "s3 = didOpen w fp s" using didOpen_as_steps [OF 1 2 3] by simp
  moreover have "s6 = didOpen w fp s3" using didOpen_as_steps [OF 4 5 6] by simp
  moreover have "snd (run_pool w [0, 0, 0, 1, 1, 1] ([(fp, Begin), (fp, Begin)], s)) = s6"
    by (simp add: run_pool_def pool_step_def 1 2 3 4 5 6)
  ultimately show ?thesis by simp
qed

lemma demo_steps:
  "rootPath s = ''/p'' \<Longrightarrow> ''file:///p/a.ts'' \<notin> openFiles s \<Longrightarrow>
   didOpen_step demo_world ''a.ts'' Begin s
     = (AwaitRead (Inr ''function f() {}''), emit (ReadFile ''/p/a.ts'') s)"
  "rootPath s = ''/p'' \<Longrightarrow>
   didOpen_step demo_world ''a.ts'' (AwaitRead (Inr content)) s
     = (AwaitNotification None,
        emit (Notification_didOpen ''file:///p/a.ts'' ''typescript'' 1 content) s)"
  "rootPath s = ''/p'' \<Longrightarrow>
   didOpen_step demo_world ''a.ts'' (AwaitNotification None) s
     = (Finished, s\<lparr>openFiles := insert ''file:///p/a.ts'' (openFiles s)\<rparr>)"
  by (simp_all add: didOpen_step_def resolve_demo Let_def)
    (simp_all add: demo_world_def getLanguageId_def endsWith_def)

text \<open>
  Claim C4, as stated: any two queries against the same file cause exactly one
  open-notification for it. This fails in two ways. For a file that cannot be read,
  both queries return normally and no notification is sent. And for a readable file,
  when the two calls of \<open>didOpen\<close> overlap (both test the set before either has added
  the URI), both send the notification: the file is announced twice.
\<close>

theorem open_notification_counterexample:
  "fst (run_query demo_world (Definition (Num 0) (Num 0)) ''missing.ts'' (new_LspClient demo_world))
     = None
   \<and> fst (run_query demo_world (Hover (Num 0) (Num 0)) ''missing.ts''
           (snd (run_query demo_world (Definition (Num 0) (Num 0)) ''missing.ts''
                   (new_LspClient demo_world)))) = None
   \<and> didOpen_count ''file:///p/missing.ts''
        (trace (snd (run_query demo_world (Hover (Num 0) (Num 0)) ''missing.ts''
           (snd (run_query demo_world (Definition (Num 0) (Num 0)) ''missing.ts''
                   (new_LspClient demo_world)))))) = 0
   \<and> ensureInitialized demo_world (new_LspClient demo_world) = (Inr (), ready_state)
   \<and> didOpen_count ''file:///p/a.ts'' (trace ready_state) = 0
   \<and> didOpen_count ''file:///p/a.ts''
        (trace (snd (run_pool demo_world [0, 1, 0, 1, 0, 1]
                       ([(''a.ts'', Begin), (''a.ts'', Begin)], ready_state)))) = 2"
proof -
  let ?s = "new_LspClient demo_world"
  let ?t = "emit (Request_definition ''file:///p/missing.ts'' (Num 0) (Num 0))
              (emit (Console_error ''Failed to open file: missing.ts'')
                 (emit (ReadFile ''/p/missing.ts'') ready_state))"
  have r1: "run_query demo_world (Definition (Num 0) (Num 0)) ''missing.ts'' ?s = (None, ?t)"
    by (simp add: run_query_def getDefinition_def ensure_demo didOpen_missing Let_def ready_simps
          resolve_demo)
      (simp add: demo_world_def)
  have r2: "run_query demo_world (Hover (Num 0) (Num 0)) ''missing.ts'' ?t =
              (None, emit (Request_hover ''file:///p/missing.ts'' (Num 0) (Num 0))
                       (emit (Console_error ''Failed to open file: missing.ts'')
                          (emit (ReadFile ''/p/missing.ts'') ?t)))"
    by (simp add: run_query_def getHover_def ensureInitialized_initialized didOpen_missing Let_def
          ready_simps resolve_demo)
      (simp add: demo_world_def)
  have a: "didOpen_count ''file:///p/missing.ts''
        (trace (snd (run_query demo_world (Hover (Num 0) (Num 0)) ''missing.ts''
           (snd (run_query demo_world (Definition (Num 0) (Num 0)) ''missing.ts'' ?s))))) = 0"
    by (simp add: r1 r2) (simp add: ready_state_def didOpen_count_def)
  have b: "didOpen_count ''file:///p/a.ts'' (trace ready_state) = 0"
    by (simp add: ready_state_def didOpen_count_def)
  have c: "didOpen_count ''file:///p/a.ts''
        (trace (snd (run_pool demo_world [0, 1, 0, 1, 0, 1]
                       ([(''a.ts'', Begin), (''a.ts'', Begin)], ready_state)))) = 2"
    by (simp add: run_pool_def pool_step_def demo_steps ready_simps)
      (simp add: ready_state_def didOpen_count_def)
  show ?thesis
    using a b c by (simp add: r1 r2 ensure_demo)
qed

text \<open>
  Claim C4, amended. Two queries against the same file of which the second is started
  after the first has returned, from a state in which every URI of the open-file set has
  been announced exactly once and no other URI has been announced (the state of a fresh
  client is such a state), leave at most one open-notification for the file: exactly
  one if its URI is in the open-file set afterwards, none otherwise; it is exactly one
  whenever the handshake, the read and the notification of the first query succeed. The
  open-file set only grows, and a URI is in it only if its notification has been sent.

  The last sentence needs no condition on the order of the calls: whatever the number
  of calls of \<open>didOpen\<close> in progress, their files and the schedule of their steps, the
  open-file set only grows and every URI in it has been announced at least once. The
  schedule in which the second of two calls starts after the first has returned leaves
  the state of two calls of \<open>didOpen\<close> one after the other.
\<close>

theorem open_notification_at_most_once:
  fixes w :: world and s :: lsp_state and q1 q2 :: query and filePath :: string
  assumes inv: "open_inv s"
  defines "s1 \<equiv> snd (run_query w q1 filePath s)"
  defines "s2 \<equiv> snd (run_query w q2 filePath s1)"
  defines "u \<equiv> file_uri w s filePath"
  shows "didOpen_count u (trace s2) \<le> 1
       \<and> didOpen_count u (trace s2) = (if u \<in> openFiles s2 then 1 else 0)
       \<and> openFiles s \<subseteq> openFiles s1 \<and> openFiles s1 \<subseteq> openFiles s2
       \<and> open_inv s2
       \<and> (fst (ensureInitialized w s) = Inr ()
            \<and> open_succeeds w filePath (snd (ensureInitialized w s))
          \<longrightarrow> didOpen_count u (trace s2) = 1)
       \<and> (\<forall>files schedule u'.
             openFiles s
               \<subseteq> openFiles (snd (run_pool w schedule (map (\<lambda>fp. (fp, Begin)) files, s)))
             \<and> (u' \<in> openFiles (snd (run_pool w schedule (map (\<lambda>fp. (fp, Begin)) files, s)))
                \<longrightarrow> 1 \<le> didOpen_count u'
                          (trace (snd (run_pool w schedule (map (\<lambda>fp. (fp, Begin)) files, s))))))
       \<and> snd (run_pool w [0, 0, 0, 1, 1, 1] ([(filePath, Begin), (filePath, Begin)], s))
           = didOpen w filePath (didOpen w filePath s)"
proof -
  have inv1: "open_inv s1"
    unfolding s1_def using inv by (rule run_query_inv)
  have inv2: "open_inv s2"
    unfolding s2_def using inv1 by (rule run_query_inv)
  have cnt: "didOpen_count u (trace s2) = (if u \<in> openFiles s2 then 1 else 0)"
    using inv2 by (simp add: open_inv_def)
  have m1: "openFiles s \<subseteq> openFiles s1" and m2: "openFiles s1 \<subseteq> openFiles s2"
    unfolding s1_def s2_def by (rule run_query_mono)+
  have opened: "u \<in> openFiles s2"
    if ok: "fst (ensureInitialized w s) = Inr ()"
      and os: "open_succeeds w filePath (snd (ensureInitialized w s))"
  proof -
    have "file_uri w (snd (ensureInitialized w s)) filePath = u"
      by (simp add: file_uri_def u_def)
    then have "u \<in> openFiles (didOpen w filePath (snd (ensureInitialized w s)))"
      using didOpen_succeeds [OF os] by simp
    then have "u \<in> openFiles s1"
      using ok by (simp add: s1_def run_query_state)
    then show ?thesis using m2 by blast
  qed
  have pool: "openFiles s
               \<subseteq> openFiles (snd (run_pool w schedule (map (\<lambda>fp. (fp, Begin)) files, s)))
             \<and> (u' \<in> openFiles (snd (run_pool w schedule (map (\<lambda>fp. (fp, Begin)) files, s)))
                \<longrightarrow> 1 \<le> didOpen_count u'
                          (trace (snd (run_pool w schedule (map (\<lambda>fp. (fp, Begin)) files, s)))))"
    for files schedule u'
  proof -
    have "pool_inv w (map (\<lambda>fp. (fp, Begin)) files, s)"
      using open_inv_announced [OF inv] by (auto simp: pool_inv_def task_inv_def)
    then have "pool_inv w (run_pool w schedule (map (\<lambda>fp. (fp, Begin)) files, s))"
      by (rule run_pool_inv)
    then have "announced (snd (run_pool w schedule (map (\<lambda>fp. (fp, Begin)) files, s)))"
      by (simp add: pool_inv_def)
    then show ?thesis
      using run_pool_mono [of "(map (\<lambda>fp. (fp, Begin)) files, s)" w schedule]
      by (simp add: announced_def)
  qed
  have seq: "snd (run_pool w [0, 0, 0, 1, 1, 1] ([(filePath, Begin), (filePath, Begin)], s))
           = didOpen w filePath (didOpen w filePath s)"
    by (rule run_pool_sequential)
  have main: "didOpen_count u (trace s2) \<le> 1
       \<and> didOpen_count u (trace s2) = (if u \<in> openFiles s2 then 1 else 0)
       \<and> openFiles s \<subseteq> openFiles s1 \<and> openFiles s1 \<subseteq> openFiles s2
       \<and> open_inv s2
       \<and> (fst (ensureInitialized w s) = Inr ()
            \<and> open_succeeds w filePath (snd (ensureInitialized w s))
          \<longrightarrow> didOpen_count u (trace s2) = 1)"
    using cnt m1 m2 inv2 opened by simp
  show ?thesis
    using main pool seq by blast
qed

lemma ready_inv: "open_inv ready_state"
  by (simp add: open_inv_def ready_state_def didOpen_count_def)

theorem open_notification_at_most_once_witness:
  "open_inv (new_LspClient demo_world)
   \<and> fst (ensureInitialized demo_world (new_LspClient demo_world)) = Inr ()
   \<and> open_succeeds demo_world ''a.ts'' (snd (ensureInitialized demo_world (new_LspClient demo_world)))
   \<and> didOpen_count ''file:///p/a.ts''
        (trace (snd (run_query demo_world (Hover (Num 0) (Num 0)) ''a.ts''
           (snd (run_query demo_world (Definition (Num 0) (Num 0)) ''a.ts''
                   (new_LspClient demo_world)))))) = 1
   \<and> open_inv ready_state
   \<and> ''file:///p/a.ts''
        \<in> openFiles (snd (run_pool demo_world [0, 1, 0, 1, 0, 1]
                             (map (\<lambda>fp. (fp, Begin)) [''a.ts'', ''a.ts''], ready_state)))
   \<and> 1 \<le> didOpen_count ''file:///p/a.ts''
            (trace (snd (run_pool demo_world [0, 1, 0, 1, 0, 1]
                           (map (\<lambda>fp. (fp, Begin)) [''a.ts'', ''a.ts''], ready_state))))"
proof -
  have os: "open_succeeds demo_world ''a.ts'' (snd (ensureInitialized demo_world (new_LspClient demo_world)))"
    by (simp add: ensure_demo open_succeeds_def ready_state_def resolve_demo Let_def)
      (simp add: demo_world_def)
  have ok: "fst (ensureInitialized demo_world (new_LspClient demo_world)) = Inr ()"
    by (simp add: ensure_demo)
  have u: "file_uri demo_world (new_LspClient demo_world) ''a.ts'' = ''file:///p/a.ts''"
    by (simp add: file_uri_def new_demo resolve_demo)
  have one: "didOpen_count ''file:///p/a.ts''
        (trace (snd (run_query demo_world (Hover (Num 0) (Num 0)) ''a.ts''
           (snd (run_query demo_world (Definition (Num 0) (Num 0)) ''a.ts''
                   (new_LspClient demo_world)))))) = 1"
    using open_notification_at_most_once [OF new_inv [of demo_world], where w = demo_world
        and ?q1.0 = "Definition (Num 0) (Num 0)" and ?q2.0 = "Hover (Num 0) (Num 0)"
        and filePath = "''a.ts''"] os ok
    by (simp add: u)
  have mem: "''file:///p/a.ts''
        \<in> openFiles (snd (run_pool demo_world [0, 1, 0, 1, 0, 1]
                             (map (\<lambda>fp. (fp, Begin)) [''a.ts'', ''a.ts''], ready_state)))"
    by (simp add: run_pool_def pool_step_def demo_steps ready_simps)
  have two: "1 \<le> didOpen_count ''file:///p/a.ts''
            (trace (snd (run_pool demo_world [0, 1, 0, 1, 0, 1]
                           (map (\<lambda>fp. (fp, Begin)) [''a.ts'', ''a.ts''], ready_state))))"
    using open_notification_at_most_once [OF ready_inv, where w = demo_world] mem
    by blast
  show ?thesis
    by (intro conjI new_inv ok os one ready_inv mem two)
qed

section \<open>Searching a file\<close>

lemma split_at_no_sep:
  "sep \<notin> set cur \<Longrightarrow> ln \<in> set (split_at sep cur cs) \<Longrightarrow> sep \<notin> set ln"
proof (induction cs arbitrary: cur)
  case Nil
  then show ?case by simp
next
  case (Cons c cs)
  show ?case
  proof (cases "c = sep")
    case True
    with Cons.prems have "ln = cur \<or> ln \<in> set (split_at sep [] cs)" by simp
    then show ?thesis using Cons.prems(1) Cons.IH [of "[]"] by auto
  next
    case False
    with Cons.prems have "ln \<in> set (split_at sep (cur @ [c]) cs)" by simp
    then show ?thesis using Cons.prems(1) False Cons.IH [of "cur @ [c]"] by auto
  qed
qed

lemma split_lines_no_newline: "ln \<in> set (split_lines content) \<Longrightarrow> CHR 0x0A \<notin> set ln"
  unfolding split_lines_def by (rule split_at_no_sep [of _ "[]"]) simp_all

lemma find_from_absent: "c \<in> set q \<Longrightarrow> c \<notin> set rest \<Longrightarrow> find_from q rest i = None"
proof (induction rest arbitrary: i)
  case Nil
  then show ?case by auto
next
  case (Cons a rest)
  have "take (length q) (a # rest) \<noteq> q"
  proof
    assume "take (length q) (a # rest) = q"
    then have "set q \<subseteq> set (a # rest)" by (metis set_take_subset)
    with Cons.prems show False by auto
  qed
  with Cons show ?case by simp
qed

lemma indexOf_absent: "c \<in> set q \<Longrightarrow> c \<notin> set s \<Longrightarrow> indexOf s q pos = - 1"
proof -
  assume q: "c \<in> set q" and s: "c \<notin> set s"
  have "c \<notin> set (drop n s)" for n
    using s by (auto dest: in_set_dropD)
  then have "find_from q (drop n s) i = None" for n i
    using q by (rule find_from_absent [rotated])
  then show ?thesis
    by (simp add: indexOf_def Let_def)
qed

lemma search_while_done: "search_while ln q i (- 1) ms = Some ms"
  by (simp add: search_while.simps)

lemma search_for_absent:
  "c \<in> set q \<Longrightarrow> \<forall>ln \<in> set lns. c \<notin> set ln \<Longrightarrow> search_for lns q i ms = Some ms"
  by (induction lns arbitrary: i) (simp_all add: indexOf_absent search_while_done)

text \<open>
  Claim C10: for every file content and every query that contains a newline character,
  \<open>search_in_file\<close> returns and reports zero matches: the content is split at the
  newlines before the search, so no line contains the query.
\<close>

theorem newline_query_no_match:
  assumes "parse_search_args args = Inr (filePath, query)"
    and "CHR 0x0A \<in> set query"
    and "fs_readFile w (trace s) filePath = Inr content"
  shows "search_for (split_lines content) query 0 [] = Some []
       \<and> handleSearchInFile w args s
           = Some (Inr (text_result (search_text w [])), emit (ReadFile filePath) s)
       \<and> callTool w ''search_in_file'' args s
           = Some (text_result (search_text w []), emit (ReadFile filePath) s)"
proof -
  have none: "search_for (split_lines content) query 0 [] = Some []"
    using assms(2) split_lines_no_newline by (intro search_for_absent [of "CHR 0x0A"]) auto
  then have h: "handleSearchInFile w args s
           = Some (Inr (text_result (search_text w [])), emit (ReadFile filePath) s)"
    using assms by (simp add: handleSearchInFile_def)
  show ?thesis
    using none h by (simp add: callTool_def)
qed

lemma find_from_None:
  "find_from q rest i = None \<Longrightarrow> j \<le> length rest \<Longrightarrow> take (length q) (drop j rest) \<noteq> q"
proof (induction rest arbitrary: i j)
  case Nil
  then show ?case by (auto split: if_splits)
next
  case (Cons a rest)
  show ?case
  proof (cases j)
    case 0
    with Cons.prems show ?thesis by (auto split: if_splits)
  next
    case (Suc j')
    with Cons.prems Cons.IH [of "Suc i" j'] show ?thesis by (auto split: if_splits)
  qed
qed

lemma find_from_Some:
  "find_from q rest i = Some k \<Longrightarrow>
     i \<le> k \<and> k - i \<le> length rest \<and> take (length q) (drop (k - i) rest) = q
     \<and> (\<forall>j < k - i. take (length q) (drop j rest) \<noteq> q)"
proof (induction rest arbitrary: i)
  case Nil
  then show ?case by (auto split: if_splits)
next
  case (Cons a rest)
  show ?case
  proof (cases "take (length q) (a # rest) = q")
    case True
    with Cons.prems show ?thesis by simp
  next
    case False
    with Cons.prems have rec: "find_from q rest (Suc i) = Some k" by simp
    note ih = Cons.IH [OF rec]
    from ih have ki: "Suc i \<le> k" by simp
    then have eq: "k - i = Suc (k - Suc i)" by simp
    have "\<forall>j < k - i. take (length q) (drop j (a # rest)) \<noteq> q"
    proof (intro allI impI)
      fix j assume "j < k - i"
      then show "take (length q) (drop j (a # rest)) \<noteq> q"
        using False ih by (cases j) (auto simp: eq)
    qed
    then show ?thesis using ih ki by (simp add: eq)
  qed
qed

lemma indexOf_none:
  assumes "indexOf ln q (int p) = - 1" and "p \<le> c" and "c \<le> length ln"
  shows "\<not> occurs_at q ln c"
proof -
  from assms have pl: "p \<le> length ln" by simp
  have "find_from q (drop p ln) p = None"
    using assms(1) pl by (simp add: indexOf_def Let_def min_def split: option.splits)
  from find_from_None [OF this, of "c - p"] assms(2,3)
  show ?thesis by (simp add: occurs_at_def)
qed

lemma indexOf_some:
  assumes "indexOf ln q (int p) = int k" and "p \<le> length ln"
  shows "p \<le> k \<and> k \<le> length ln \<and> occurs_at q ln k \<and> (\<forall>c. p \<le> c \<and> c < k \<longrightarrow> \<not> occurs_at q ln c)"
proof -
  have f: "find_from q (drop p ln) p = Some k"
    using assms by (simp add: indexOf_def Let_def min_def split: option.splits)
  note s = find_from_Some [OF f]
  have "\<not> occurs_at q ln c" if "p \<le> c" "c < k" for c
    using s that by (auto simp: occurs_at_def dest!: spec [of _ "c - p"])
  then show ?thesis using s assms(2) by (auto simp: occurs_at_def)
qed

lemma indexOf_range: "indexOf ln q pos = - 1 \<or> (\<exists>k. indexOf ln q pos = int k)"
  by (simp add: indexOf_def Let_def split: option.splits)

lemma occurs_at_bound: "q \<noteq> [] \<Longrightarrow> occurs_at q ln k \<Longrightarrow> k < length ln"
proof (rule ccontr)
  assume q: "q \<noteq> []" and o: "occurs_at q ln k" and "\<not> k < length ln"
  then have "drop k ln = []" by simp
  with o have "q = []" by (simp add: occurs_at_def)
  with q show False by simp
qed

lemma filter_none: "(\<And>c. p \<le> c \<Longrightarrow> c < n \<Longrightarrow> \<not> P c) \<Longrightarrow> filter P [p..<n] = []"
  by (auto simp: filter_empty_conv)

lemma filter_first:
  assumes "p \<le> k" "k < n" "P k" "\<And>c. p \<le> c \<Longrightarrow> c < k \<Longrightarrow> \<not> P c"
  shows "filter P [p..<n] = k # filter P [Suc k..<n]"
proof -
  have "[p..<n] = [p..<k] @ k # [Suc k..<n]"
    using assms(1,2) by (metis le_add_diff_inverse less_imp_le_nat upt_add_eq_append upt_conv_Cons)
  moreover have "filter P [p..<k] = []"
    using assms(4) by (rule filter_none)
  ultimately show ?thesis using assms(3) by simp
qed

lemma search_while_nonempty:
  assumes q: "q \<noteq> []"
  shows "p \<le> length ln \<Longrightarrow>
         search_while ln q i (indexOf ln q (int p)) ms =
           Some (ms @ map (\<lambda>c. \<lparr>match_line = i, match_character = int c, match_text = trim ln\<rparr>)
                        (filter (occurs_at q ln) [p..<Suc (length ln)]))"
proof (induction "length ln - p" arbitrary: p ms rule: less_induct)
  case less
  let ?mk = "\<lambda>c. \<lparr>match_line = i, match_character = int c, match_text = trim ln\<rparr>"
  from indexOf_range [of ln q "int p"] show ?case
  proof
    assume none: "indexOf ln q (int p) = - 1"
    have "filter (occurs_at q ln) [p..<Suc (length ln)] = []"
      using indexOf_none [OF none] by (intro filter_none) simp
    then show ?thesis by (simp add: none search_while.simps)
  next
    assume "\<exists>k. indexOf ln q (int p) = int k"
    then obtain k where k: "indexOf ln q (int p) = int k" ..
    note s = indexOf_some [OF k less.prems]
    have kl: "k < length ln" using occurs_at_bound [OF q] s by blast
    have f: "filter (occurs_at q ln) [p..<Suc (length ln)]
               = k # filter (occurs_at q ln) [Suc k..<Suc (length ln)]"
      using s kl by (intro filter_first) auto
    have ih: "search_while ln q i (indexOf ln q (int (Suc k))) (ms @ [?mk k]) =
                Some ((ms @ [?mk k]) @ map ?mk (filter (occurs_at q ln) [Suc k..<Suc (length ln)]))"
      using s kl by (intro less.hyps) auto
    have "search_while ln q i (indexOf ln q (int p)) ms =
            search_while ln q i (indexOf ln q (int (Suc k))) (ms @ [?mk k])"
      unfolding k by (subst search_while.simps) (simp add: add.commute)
    also note ih
    finally show ?thesis unfolding f by (simp del: upt_Suc)
  qed
qed

text \<open>
  For a non-empty query the two loops return, with exactly the occurrences of the query
  in every line, overlapping ones included, in the order of lines and characters.
\<close>

lemma search_for_nonempty:
  "q \<noteq> [] \<Longrightarrow> search_for lns q i ms = Some (ms @ all_matches lns q i)"
proof (induction lns arbitrary: i ms)
  case Nil
  then show ?case by simp
next
  case (Cons ln lns)
  have "search_while ln q i (indexOf ln q 0) ms =
          Some (ms @ map (\<lambda>c. \<lparr>match_line = i, match_character = int c, match_text = trim ln\<rparr>)
                        (occurrences q ln))"
    using search_while_nonempty [OF Cons.prems, of 0 ln i ms] by (simp add: occurrences_def)
  then show ?case using Cons by simp
qed

text \<open>
  The empty query: \<open>indexOf\<close> never answers \<open>-1\<close> for it, since a start position past
  the end of the line is clamped to the length of the line, so the \<open>while\<close> loop does
  not end.
\<close>

lemma indexOf_empty_nonneg: "0 \<le> indexOf ln [] pos"
  by (cases "drop (min (nat (max pos 0)) (length ln)) ln") (simp_all add: indexOf_def Let_def)

lemma search_while_empty_query_aux:
  assumes "search_while ln q i index ms = Some y"
  shows "\<not> (q = [] \<and> 0 \<le> index)"
proof (rule search_while.raw_induct
    [where P = "\<lambda>ln q i index ms y. \<not> (q = [] \<and> 0 \<le> index)", OF _ assms])
  fix sw :: "string \<Rightarrow> string \<Rightarrow> nat \<Rightarrow> int \<Rightarrow> search_match list \<Rightarrow> search_match list option"
  fix ln q i index ms y
  assume ih: "\<And>ln q i index ms y. sw ln q i index ms = Some y \<Longrightarrow> \<not> (q = [] \<and> 0 \<le> index)"
    and step: "(if index \<noteq> - 1
                then sw ln q i (indexOf ln q (index + 1))
                       (ms @ [\<lparr>match_line = i, match_character = index, match_text = trim ln\<rparr>])
                else Some ms) = Some y"
  show "\<not> (q = [] \<and> 0 \<le> index)"
  proof
    assume a: "q = [] \<and> 0 \<le> index"
    then have "index \<noteq> - 1" by simp
    with step have "sw ln q i (indexOf ln q (index + 1))
        (ms @ [\<lparr>match_line = i, match_character = index, match_text = trim ln\<rparr>]) = Some y"
      by simp
    from ih [OF this] a show False
      using indexOf_empty_nonneg [of ln "index + 1"] by simp
  qed
qed

lemma search_while_empty_query: "0 \<le> index \<Longrightarrow> search_while ln [] i index ms = None"
  using search_while_empty_query_aux [of ln "[]" i index ms] by (cases "search_while ln [] i index ms") auto

lemma search_for_empty_query: "search_for (ln # lns) [] i ms = None"
  by (simp add: search_while_empty_query indexOf_empty_nonneg)

lemma split_at_nonempty: "split_at sep cur cs \<noteq> []"
  by (induction cs arbitrary: cur) auto

lemma search_empty_query_diverges: "search_for (split_lines content) [] 0 [] = None"
proof (cases "split_lines content")
  case Nil
  then show ?thesis using split_at_nonempty by (simp add: split_lines_def)
next
  case (Cons ln lns)
  then show ?thesis by (simp only: search_for_empty_query)
qed

theorem newline_query_no_match_witness:
  "parse_search_args (JObject [(''filePath'', JString ''/p/a.ts''), (''query'', JString (''f()'' @ [CHR 0x0A]))])
     = Inr (''/p/a.ts'', ''f()'' @ [CHR 0x0A])
   \<and> CHR 0x0A \<in> set (''f()'' @ [CHR 0x0A])
   \<and> fs_readFile demo_world (trace (new_LspClient demo_world)) ''/p/a.ts'' = Inr ''function f() {}''
   \<and> callTool demo_world ''search_in_file''
         (JObject [(''filePath'', JString ''/p/a.ts''), (''query'', JString (''f()'' @ [CHR 0x0A]))])
         (new_LspClient demo_world)
       = Some (text_result (search_text demo_world []),
               emit (ReadFile ''/p/a.ts'') (new_LspClient demo_world))"
proof -
  have p: "parse_search_args
             (JObject [(''filePath'', JString ''/p/a.ts''), (''query'', JString (''f()'' @ [CHR 0x0A]))])
           = Inr (''/p/a.ts'', ''f()'' @ [CHR 0x0A])"
    by (simp add: parse_search_args_def obj_get_def)
  have n: "CHR 0x0A \<in> set (''f()'' @ [CHR 0x0A])" by simp
  have r: "fs_readFile demo_world (trace (new_LspClient demo_world)) ''/p/a.ts'' = Inr ''function f() {}''"
    by (simp add: demo_world_def)
  show ?thesis
    using newline_query_no_match [OF p n r] p r by simp
qed

text \<open>The line \<open>aaa\<close> and the query \<open>aa\<close>: two matches, at characters 0 and 1.\<close>

lemma search_overlap_example:
  "search_for (split_lines ''aaa'') ''aa'' 0 []
     = Some [\<lparr>match_line = 0, match_character = 0, match_text = ''aaa''\<rparr>,
             \<lparr>match_line = 0, match_character = 1, match_text = ''aaa''\<rparr>]"
  by (simp add: search_for_nonempty split_lines_def occurrences_def occurs_at_def trim_def
      is_white_def del: search_for.simps)

text \<open>
  Claim C6: \<open>search_in_file\<close> reports every occurrence of the query in every line,
  overlapping ones included. For the empty query, whose occurrences in a line are the
  indices up to its length, the tool reports nothing: the call does not return.
\<close>

theorem search_in_file_empty_query_never_returns:
  "callTool demo_world ''search_in_file''
     (JObject [(''filePath'', JString ''/p/a.ts''), (''query'', JString [])])
     (new_LspClient demo_world) = None"
  by (simp add: callTool_def handleSearchInFile_def parse_search_args_def obj_get_def
      search_empty_query_diverges demo_world_def)

section \<open>The call-graph resolver\<close>

text \<open>\<open>findSymbol\<close> returns the first node with the name in depth-first order.\<close>

lemma find_append:
  "find P (xs @ ys) = (case find P xs of None \<Rightarrow> find P ys | Some x \<Rightarrow> Some x)"
  by (induction xs) auto

lemma findSymbol_preorder:
  "findSymbol symbols n = find (\<lambda>sym. name sym = n) (preorder symbols)"
  by (induction symbols n rule: findSymbol.induct) (auto simp: find_append split: option.splits)

lemma findSymbol_None_iff:
  "findSymbol symbols n = None \<longleftrightarrow> n \<notin> name ` set (preorder symbols)"
  by (auto simp: findSymbol_preorder find_None_iff)

text \<open>
  Claim C8: a \<open>check_function_call\<close> request whose \<open>sourceFunction\<close> is the name of no
  node of the outline that the server returns for the source file gets the text
  \<open>Source function '...' not found in ...\<close>, which names the function, without the
  error flag; the dispatcher returns this result, so nothing is thrown.
\<close>

theorem missing_source_function:
  assumes args: "parse_call_args args = Inr (sourceFile, sourceFunction, targetFile, targetFunction)"
    and outline: "getDocumentSymbols w sourceFile s = (Inr (Some sourceSymbols), s1)"
    and missing: "sourceFunction \<notin> name ` set (preorder sourceSymbols)"
  shows "findSymbol sourceSymbols sourceFunction = None
       \<and> callTool w ''check_function_call'' args s
           = Some (\<lparr>content_text =
                      ''Source function '' @ [CHR 0x27] @ sourceFunction @ [CHR 0x27]
                        @ '' not found in '' @ sourceFile,
                    isError = False\<rparr>, s1)"
proof -
  have none: "findSymbol sourceSymbols sourceFunction = None"
    using missing by (simp add: findSymbol_None_iff)
  have "handleCheckFunctionCall w args s
          = (Inr (text_result (''Source function '' @ [CHR 0x27] @ sourceFunction @ [CHR 0x27]
                                 @ '' not found in '' @ sourceFile)), s1)"
    by (simp add: handleCheckFunctionCall_def args outline none)
  then show ?thesis
    using none by (simp add: callTool_def text_result_def)
qed

lemma outline_world_simps:
  "new_LspClient outline_world = new_LspClient demo_world"
  "ensureInitialized outline_world (new_LspClient demo_world) = (Inr (), ready_state)"
  "path_resolve outline_world = path_resolve demo_world"
  "PROJECT_ROOT outline_world = ''/p''"
  "request_documentSymbol outline_world tr u = Inr (Some demo_outline)"
  "request_references outline_world tr u l c = Inr (Some [])"
  by (simp_all add: outline_world_def new_LspClient_def new_demo ensureInitialized_def initialize_def
      ready_state_def emit_def Let_def demo_world_def posix_resolve_def)

lemma null_world_simps:
  "new_LspClient null_references_world = new_LspClient demo_world"
  "ensureInitialized null_references_world (new_LspClient demo_world) = (Inr (), ready_state)"
  "path_resolve null_references_world = path_resolve demo_world"
  "PROJECT_ROOT null_references_world = ''/p''"
  "request_documentSymbol null_references_world tr u = Inr (Some demo_outline)"
  "request_references null_references_world tr u l c = Inr None"
  by (simp_all add: null_references_world_def outline_world_def new_LspClient_def new_demo
      ensureInitialized_def initialize_def ready_state_def emit_def Let_def demo_world_def
      posix_resolve_def)

lemma outline_first:
  "fst (getDocumentSymbols outline_world ''a.ts'' (new_LspClient outline_world))
     = Inr (Some demo_outline)"
  by (simp add: getDocumentSymbols_def outline_world_simps Let_def)

lemma demo_outline_names: "name ` set (preorder demo_outline) = {''main'', ''helper'', ''add''}"
  by (auto simp: demo_outline_def)

theorem missing_source_function_witness:
  "parse_call_args
     (JObject [(''sourceFile'', JString ''a.ts''), (''sourceFunction'', JString ''nope''),
               (''targetFile'', JString ''a.ts''), (''targetFunction'', JString ''add'')])
     = Inr (''a.ts'', ''nope'', ''a.ts'', ''add'')
   \<and> fst (getDocumentSymbols outline_world ''a.ts'' (new_LspClient outline_world))
       = Inr (Some demo_outline)
   \<and> ''nope'' \<notin> name ` set (preorder demo_outline)
   \<and> callTool outline_world ''check_function_call''
         (JObject [(''sourceFile'', JString ''a.ts''), (''sourceFunction'', JString ''nope''),
                   (''targetFile'', JString ''a.ts''), (''targetFunction'', JString ''add'')])
         (new_LspClient outline_world)
       = Some (\<lparr>content_text = ''Source function '' @ [CHR 0x27] @ ''nope'' @ [CHR 0x27]
                                  @ '' not found in a.ts'',
                isError = False\<rparr>,
               snd (getDocumentSymbols outline_world ''a.ts'' (new_LspClient outline_world)))"
proof -
  have p: "parse_call_args
     (JObject [(''sourceFile'', JString ''a.ts''), (''sourceFunction'', JString ''nope''),
               (''targetFile'', JString ''a.ts''), (''targetFunction'', JString ''add'')])
     = Inr (''a.ts'', ''nope'', ''a.ts'', ''add'')"
    by (simp add: parse_call_args_def obj_get_def)
  have o: "getDocumentSymbols outline_world ''a.ts'' (new_LspClient outline_world)
             = (Inr (Some demo_outline),
                snd (getDocumentSymbols outline_world ''a.ts'' (new_LspClient outline_world)))"
    using outline_first by (simp add: prod_eq_iff)
  have m: "''nope'' \<notin> name ` set (preorder demo_outline)"
    by (simp add: demo_outline_names)
  show ?thesis
    using missing_source_function [OF p o m] p m outline_first by simp
qed

text \<open>
  What \<open>handleCheckFunctionCall\<close> returns once both symbols are found and the
  reference request is answered.
\<close>

lemma check_call_after_references:
  assumes "parse_call_args args = Inr (sourceFile, sourceFunction, targetFile, targetFunction)"
    and "getDocumentSymbols w sourceFile s = (Inr (Some sourceSymbols), s1)"
    and "findSymbol sourceSymbols sourceFunction = Some sourceSym"
    and "getDocumentSymbols w targetFile s1 = (Inr (Some targetSymbols), s2)"
    and "findSymbol targetSymbols targetFunction = Some targetSym"
    and "target_position targetSym = Some target"
    and "getReferences w targetFile (Num (int (line target))) (Num (int (character target))) s2
           = (Inr references, s3)"
  shows "handleCheckFunctionCall w args s =
     (case references of
        None \<Rightarrow> (Inr (text_result ''No references found for target function''), s3)
      | Some locs \<Rightarrow>
          (case source_range sourceSym of
             None \<Rightarrow> (Inr (text_result ''Could not determine range of source symbol''), s3)
           | Some sourceRange \<Rightarrow>
               (let calls = filter (\<lambda>ref. isLocationInRange w ref sourceRange sourceFile) locs
                in if length calls > 0
                   then (Inr (text_result
                           (''Yes, '' @ [CHR 0x27] @ sourceFunction @ [CHR 0x27] @ '' calls ''
                              @ [CHR 0x27] @ targetFunction @ [CHR 0x27] @ '' ''
                              @ digits_of (length calls) @ '' times.'' @ [CHR 0x0A]
                              @ ''Locations: '' @ JSON_stringify_locations w calls)), s3)
                   else (Inr (text_result
                           (''No direct call found from '' @ [CHR 0x27] @ sourceFunction
                              @ [CHR 0x27] @ '' to '' @ [CHR 0x27] @ targetFunction @ [CHR 0x27]
                              @ ''.'')), s3))))"
  using assms
  by (simp add: handleCheckFunctionCall_def Let_def split: option.splits)

text \<open>
  Claim C2, amended: the message \<open>No references found for target function\<close> is produced
  if and only if the arguments are well-typed, both outline requests return an outline,
  both symbols are found, the target symbol has a position and the reference request
  for that position returns \<open>null\<close>. When the request returns a list, the empty list
  included (the target has zero references), the message is not produced; for the empty
  list and a source symbol with a range the result is the negative verdict
  \<open>No direct call found from '...' to '...'.\<close>
\<close>

theorem no_references_message:
  "((fst (handleCheckFunctionCall w args s)
       = Inr (text_result ''No references found for target function''))
    = (\<exists>sourceFile sourceFunction targetFile targetFunction sourceSymbols s1 sourceSym
         targetSymbols s2 targetSym target s3.
         parse_call_args args = Inr (sourceFile, sourceFunction, targetFile, targetFunction)
         \<and> getDocumentSymbols w sourceFile s = (Inr (Some sourceSymbols), s1)
         \<and> findSymbol sourceSymbols sourceFunction = Some sourceSym
         \<and> getDocumentSymbols w targetFile s1 = (Inr (Some targetSymbols), s2)
         \<and> findSymbol targetSymbols targetFunction = Some targetSym
         \<and> target_position targetSym = Some target
         \<and> getReferences w targetFile (Num (int (line target))) (Num (int (character target))) s2
              = (Inr None, s3)))
   \<and> (\<forall>sourceFile sourceFunction targetFile targetFunction sourceSymbols s1 sourceSym
         targetSymbols s2 targetSym target references s3.
         parse_call_args args = Inr (sourceFile, sourceFunction, targetFile, targetFunction)
         \<longrightarrow> getDocumentSymbols w sourceFile s = (Inr (Some sourceSymbols), s1)
         \<longrightarrow> findSymbol sourceSymbols sourceFunction = Some sourceSym
         \<longrightarrow> getDocumentSymbols w targetFile s1 = (Inr (Some targetSymbols), s2)
         \<longrightarrow> findSymbol targetSymbols targetFunction = Some targetSym
         \<longrightarrow> target_position targetSym = Some target
         \<longrightarrow> getReferences w targetFile (Num (int (line target))) (Num (int (character target))) s2
               = (Inr references, s3)
         \<longrightarrow> (references = None \<longrightarrow>
                 handleCheckFunctionCall w args s
                   = (Inr (text_result ''No references found for target function''), s3))
             \<and> (\<forall>locs. references = Some locs \<longrightarrow>
                   fst (handleCheckFunctionCall w args s)
                     \<noteq> Inr (text_result ''No references found for target function''))
             \<and> (\<forall>sourceRange. references = Some [] \<and> source_range sourceSym = Some sourceRange
                   \<longrightarrow> handleCheckFunctionCall w args s
                     = (Inr (text_result
                              (''No direct call found from '' @ [CHR 0x27] @ sourceFunction
                                 @ [CHR 0x27] @ '' to '' @ [CHR 0x27] @ targetFunction
                                 @ [CHR 0x27] @ ''.'')), s3)))"
  (is "(?L = ?R) \<and> ?S")
proof
  show "?L = ?R"
  proof
    assume ?R
    then show ?L
      by (auto simp: handleCheckFunctionCall_def)
  next
    assume ?L
    then show ?R
      by (auto simp: handleCheckFunctionCall_def text_result_def Let_def
          split: sum.splits prod.splits option.splits if_splits)
  qed
next
  show ?S
  proof (intro allI impI)
    fix sourceFile sourceFunction targetFile targetFunction sourceSymbols s1 sourceSym
      targetSymbols s2 targetSym target references s3
    assume a: "parse_call_args args = Inr (sourceFile, sourceFunction, targetFile, targetFunction)"
      "getDocumentSymbols w sourceFile s = (Inr (Some sourceSymbols), s1)"
      "findSymbol sourceSymbols sourceFunction = Some sourceSym"
      "getDocumentSymbols w targetFile s1 = (Inr (Some targetSymbols), s2)"
      "findSymbol targetSymbols targetFunction = Some targetSym"
      "target_position targetSym = Some target"
      "getReferences w targetFile (Num (int (line target))) (Num (int (character target))) s2
         = (Inr references, s3)"
    show "(references = None \<longrightarrow>
             handleCheckFunctionCall w args s
               = (Inr (text_result ''No references found for target function''), s3))
        \<and> (\<forall>locs. references = Some locs \<longrightarrow>
              fst (handleCheckFunctionCall w args s)
                \<noteq> Inr (text_result ''No references found for target function''))
        \<and> (\<forall>sourceRange. references = Some [] \<and> source_range sourceSym = Some sourceRange
              \<longrightarrow> handleCheckFunctionCall w args s
                = (Inr (text_result
                         (''No direct call found from '' @ [CHR 0x27] @ sourceFunction
                            @ [CHR 0x27] @ '' to '' @ [CHR 0x27] @ targetFunction
                            @ [CHR 0x27] @ ''.'')), s3))"
      by (simp add: check_call_after_references [OF a] text_result_def Let_def
          split: option.splits)
  qed
qed

lemma getDocumentSymbols_initialized:
  "isInitialized s \<Longrightarrow>
   getDocumentSymbols w fp s =
     (request_documentSymbol w (trace (didOpen w fp s)) (file_uri w s fp),
      emit (Request_documentSymbol (file_uri w s fp)) (didOpen w fp s))"
  by (simp add: getDocumentSymbols_def ensureInitialized_initialized file_uri_def Let_def)

lemma getReferences_initialized:
  "isInitialized s \<Longrightarrow>
   getReferences w fp ln ch s =
     (request_references w (trace (didOpen w fp s)) (file_uri w s fp) ln ch,
      emit (Request_references (file_uri w s fp) ln ch) (didOpen w fp s))"
  by (simp add: getReferences_def ensureInitialized_initialized file_uri_def Let_def)

lemma outline_s1_eq:
  "outline_s1 = emit (Request_documentSymbol (file_uri outline_world ready_state ''a.ts''))
                  (didOpen outline_world ''a.ts'' ready_state)"
  by (simp add: outline_s1_def getDocumentSymbols_def outline_world_simps Let_def file_uri_def
      ready_simps)

lemma outline_states_initialized: "isInitialized outline_s1" "isInitialized outline_s2"
proof -
  show 1: "isInitialized outline_s1"
    by (simp add: outline_s1_eq ready_simps)
  show "isInitialized outline_s2"
    by (simp add: outline_s2_def getDocumentSymbols_initialized [OF 1] 1)
qed

lemma outline_steps:
  "getDocumentSymbols outline_world ''a.ts'' (new_LspClient outline_world)
     = (Inr (Some demo_outline), outline_s1)"
  "getDocumentSymbols outline_world ''a.ts'' outline_s1 = (Inr (Some demo_outline), outline_s2)"
  "getReferences outline_world ''a.ts'' (Num 7) (Num 9) outline_s2 = (Inr (Some []), outline_s3)"
proof -
  show "getDocumentSymbols outline_world ''a.ts'' (new_LspClient outline_world)
          = (Inr (Some demo_outline), outline_s1)"
    using outline_first by (simp add: outline_s1_def prod_eq_iff)
  show "getDocumentSymbols outline_world ''a.ts'' outline_s1 = (Inr (Some demo_outline), outline_s2)"
    by (simp add: outline_s2_def getDocumentSymbols_initialized [OF outline_states_initialized(1)]
        outline_world_simps)
  show "getReferences outline_world ''a.ts'' (Num 7) (Num 9) outline_s2 = (Inr (Some []), outline_s3)"
    by (simp add: outline_s3_def getReferences_initialized [OF outline_states_initialized(2)]
        outline_world_simps)
qed

lemma demo_outline_find:
  "findSymbol demo_outline ''main'' = Some (hd demo_outline)"
  "findSymbol demo_outline ''add'' = Some (demo_outline ! 1)"
  "target_position (demo_outline ! 1) = Some \<lparr>line = 7, character = 9\<rparr>"
  "source_range (hd demo_outline)
     = Some \<lparr>start = \<lparr>line = 0, character = 0\<rparr>, end' = \<lparr>line = 5, character = 1\<rparr>\<rparr>"
  by (simp_all add: demo_outline_def target_position_def source_range_def)

lemma demo_call_args_parse:
  "parse_call_args demo_call_args = Inr (''a.ts'', ''main'', ''a.ts'', ''add'')"
  by (simp add: demo_call_args_def parse_call_args_def obj_get_def)

text \<open>
  Claim C2, as stated: the message \<open>No references found for target function\<close> is also
  produced when the target function has zero references. This fails when the server
  reports zero references as the empty list: the result is the negative verdict.
\<close>

theorem zero_references_counterexample:
  "getReferences outline_world ''a.ts'' (Num 7) (Num 9) outline_s2 = (Inr (Some []), outline_s3)
   \<and> fst (handleCheckFunctionCall outline_world demo_call_args (new_LspClient outline_world))
       = Inr (text_result
               (''No direct call found from '' @ [CHR 0x27] @ ''main'' @ [CHR 0x27] @ '' to ''
                  @ [CHR 0x27] @ ''add'' @ [CHR 0x27] @ ''.''))
   \<and> fst (handleCheckFunctionCall outline_world demo_call_args (new_LspClient outline_world))
       \<noteq> Inr (text_result ''No references found for target function'')"
proof -
  have pos: "target_position (demo_outline ! 1) = Some \<lparr>line = 7, character = 9\<rparr>"
    by (rule demo_outline_find)
  have refs: "getReferences outline_world ''a.ts''
                (Num (int (line \<lparr>line = 7, character = 9\<rparr>)))
                (Num (int (character \<lparr>line = 7, character = 9\<rparr>))) outline_s2
              = (Inr (Some []), outline_s3)"
    using outline_steps(3) by simp
  show ?thesis
    by (simp add: check_call_after_references [OF demo_call_args_parse outline_steps(1)
          demo_outline_find(1) outline_steps(2) demo_outline_find(2) pos refs]
        demo_outline_find(4) outline_steps(3) text_result_def)
qed

lemma references_update_irrelevant:
  "message (w\<lparr>request_references := f\<rparr>) e = message w e"
  "initialize (w\<lparr>request_references := f\<rparr>) s = initialize w s"
  "didOpen (w\<lparr>request_references := f\<rparr>) fp s = didOpen w fp s"
  by (simp_all add: message_def initialize_def didOpen_def Let_def
      split: error.splits sum.splits option.splits)

lemma null_world_didOpen: "didOpen null_references_world fp s = didOpen outline_world fp s"
  by (simp add: null_references_world_def references_update_irrelevant)

lemma null_world_same:
  "new_LspClient null_references_world = new_LspClient outline_world"
  "getDocumentSymbols null_references_world fp s = getDocumentSymbols outline_world fp s"
  "file_uri null_references_world s fp = file_uri outline_world s fp"
  by (simp_all add: null_references_world_def new_LspClient_def getDocumentSymbols_def
      ensureInitialized_def references_update_irrelevant file_uri_def Let_def
      split: prod.splits sum.splits)

lemma null_world_references:
  "getReferences null_references_world ''a.ts'' (Num 7) (Num 9) outline_s2 = (Inr None, outline_s3)"
  by (simp add: outline_s3_def getReferences_initialized [OF outline_states_initialized(2)]
      null_world_same null_world_didOpen null_world_simps)

theorem no_references_message_witness:
  "parse_call_args demo_call_args = Inr (''a.ts'', ''main'', ''a.ts'', ''add'')
   \<and> getDocumentSymbols outline_world ''a.ts'' (new_LspClient outline_world)
       = (Inr (Some demo_outline), outline_s1)
   \<and> findSymbol demo_outline ''main'' = Some (hd demo_outline)
   \<and> getDocumentSymbols outline_world ''a.ts'' outline_s1 = (Inr (Some demo_outline), outline_s2)
   \<and> findSymbol demo_outline ''add'' = Some (demo_outline ! 1)
   \<and> target_position (demo_outline ! 1) = Some \<lparr>line = 7, character = 9\<rparr>
   \<and> getReferences outline_world ''a.ts'' (Num 7) (Num 9) outline_s2 = (Inr (Some []), outline_s3)
   \<and> getReferences null_references_world ''a.ts'' (Num 7) (Num 9) outline_s2
       = (Inr None, outline_s3)
   \<and> source_range (hd demo_outline)
       = Some \<lparr>start = \<lparr>line = 0, character = 0\<rparr>, end' = \<lparr>line = 5, character = 1\<rparr>\<rparr>
   \<and> handleCheckFunctionCall null_references_world demo_call_args
         (new_LspClient null_references_world)
       = (Inr (text_result ''No references found for target function''), outline_s3)
   \<and> handleCheckFunctionCall outline_world demo_call_args (new_LspClient outline_world)
       = (Inr (text_result
                (''No direct call found from '' @ [CHR 0x27] @ ''main'' @ [CHR 0x27] @ '' to ''
                   @ [CHR 0x27] @ ''add'' @ [CHR 0x27] @ ''.'')), outline_s3)
   \<and> fst (handleCheckFunctionCall outline_world demo_call_args (new_LspClient outline_world))
       \<noteq> Inr (text_result ''No references found for target function'')"
proof -
  have pos: "target_position (demo_outline ! 1) = Some \<lparr>line = 7, character = 9\<rparr>"
    by (rule demo_outline_find)
  have refs: "getReferences outline_world ''a.ts''
                (Num (int (line \<lparr>line = 7, character = 9\<rparr>)))
                (Num (int (character \<lparr>line = 7, character = 9\<rparr>))) outline_s2
              = (Inr (Some []), outline_s3)"
    using outline_steps(3) by simp
  have refs0: "getReferences null_references_world ''a.ts''
                (Num (int (line \<lparr>line = 7, character = 9\<rparr>)))
                (Num (int (character \<lparr>line = 7, character = 9\<rparr>))) outline_s2
              = (Inr None, outline_s3)"
    using null_world_references by simp
  have s0: "getDocumentSymbols null_references_world ''a.ts'' (new_LspClient null_references_world)
              = (Inr (Some demo_outline), outline_s1)"
    and s1: "getDocumentSymbols null_references_world ''a.ts'' outline_s1
              = (Inr (Some demo_outline), outline_s2)"
    by (simp_all add: null_world_same outline_steps)
  note a = no_references_message [THEN conjunct2, rule_format, OF demo_call_args_parse
      outline_steps(1) demo_outline_find(1) outline_steps(2) demo_outline_find(2) pos refs]
  note b = no_references_message [THEN conjunct2, rule_format, OF demo_call_args_parse s0
      demo_outline_find(1) s1 demo_outline_find(2) pos refs0]
  from a have a1: "fst (handleCheckFunctionCall outline_world demo_call_args
                          (new_LspClient outline_world))
                   \<noteq> Inr (text_result ''No references found for target function'')"
    by simp
  from a demo_outline_find(4)
  have a3: "handleCheckFunctionCall outline_world demo_call_args (new_LspClient outline_world)
       = (Inr (text_result
                (''No direct call found from '' @ [CHR 0x27] @ ''main'' @ [CHR 0x27] @ '' to ''
                   @ [CHR 0x27] @ ''add'' @ [CHR 0x27] @ ''.'')), outline_s3)"
    by simp
  from b have b1: "handleCheckFunctionCall null_references_world demo_call_args
         (new_LspClient null_references_world)
       = (Inr (text_result ''No references found for target function''), outline_s3)"
    by simp
  show ?thesis
    by (intro conjI demo_call_args_parse outline_steps demo_outline_find null_world_references
        a1 a3 b1)
qed

section \<open>Argument validation of the position tools\<close>

lemma parse_position_args_well_typed:
  "well_typed_position_args args \<Longrightarrow> \<exists>r. parse_position_args args = Inr r"
  by (cases args)
    (auto simp: well_typed_position_args_def parse_position_args_def Let_def
      elim!: is_string.elims is_string_or_number.elims)

lemma z_string_cases: "(\<exists>v. z_string path j = Inr v \<and> j = JString v) \<or> z_string path j = Inl [invalid_type path]"
  by (cases j) simp_all

lemma z_string_or_number_cases:
  "(\<exists>v. z_string_or_number path j = Inr (StringToNumber v) \<and> j = JString v)
   \<or> (\<exists>n. z_string_or_number path j = Inr (Num n) \<and> j = JNumber n)
   \<or> z_string_or_number path j = Inl [invalid_union path]"
  by (cases j) simp_all

lemma parse_position_args_ill_typed:
  "\<not> well_typed_position_args args \<Longrightarrow>
   \<exists>issues. issues \<noteq> [] \<and> parse_position_args args = Inl (ZodError issues)"
proof (cases args)
  case (JObject kvs)
  assume bad: "\<not> well_typed_position_args args"
  show ?thesis
    using bad z_string_cases [of "[''filePath'']" "obj_get kvs ''filePath''"]
      z_string_or_number_cases [of "[''line'']" "obj_get kvs ''line''"]
      z_string_or_number_cases [of "[''character'']" "obj_get kvs ''character''"]
    by (auto simp: JObject well_typed_position_args_def parse_position_args_def Let_def)
qed (simp_all add: parse_position_args_def)

text \<open>
  Claim C3, amended: for \<open>get_definition\<close> and \<open>get_references\<close>, arguments that are
  absent, or an object whose \<open>filePath\<close> is missing or not a string, or whose \<open>line\<close> or
  \<open>character\<close> is missing or neither a string nor a number, raise a \<open>ZodError\<close> before
  anything is sent (the state with its trace is unchanged), and the dispatcher turns it
  into a result with the error flag. All other arguments pass the validation, and no
  others do. For them, every string given for \<open>line\<close> or for \<open>character\<close>, numeric or not,
  is accepted: with \<open>line\<close> converted to \<open>Number(v)\<close> for a string \<open>v\<close> and to \<open>n\<close> for a number
  \<open>n\<close>, and \<open>character\<close> likewise, the handler leaves the client in the state in which the
  query for \<open>filePath\<close> and these two values leaves it, and it throws exactly when the
  query throws.
\<close>

theorem position_args_validation:
  "(is_request_arguments args \<and> \<not> well_typed_position_args args \<longrightarrow>
      (\<exists>issues. issues \<noteq> []
         \<and> handleGetDefinition w args s = (Inl (ZodError issues), s)
         \<and> handleGetReferences w args s = (Inl (ZodError issues), s)
         \<and> callTool w ''get_definition'' args s
             = Some (\<lparr>content_text = ''Error: '' @ ZodError_message w issues, isError = True\<rparr>, s)
         \<and> callTool w ''get_references'' args s
             = Some (\<lparr>content_text = ''Error: '' @ ZodError_message w issues, isError = True\<rparr>, s)))
   \<and> well_typed_position_args args = (\<exists>r. parse_position_args args = Inr r)
   \<and> (\<forall>kvs filePath ln ch.
         args = JObject kvs \<and> obj_get kvs ''filePath'' = JString filePath
         \<and> ((\<exists>v. obj_get kvs ''line'' = JString v \<and> ln = StringToNumber v)
              \<or> (\<exists>n. obj_get kvs ''line'' = JNumber n \<and> ln = Num n))
         \<and> ((\<exists>v. obj_get kvs ''character'' = JString v \<and> ch = StringToNumber v)
              \<or> (\<exists>n. obj_get kvs ''character'' = JNumber n \<and> ch = Num n))
       \<longrightarrow> parse_position_args args = Inr (filePath, ln, ch)
           \<and> snd (handleGetDefinition w args s) = snd (getDefinition w filePath ln ch s)
           \<and> snd (handleGetReferences w args s) = snd (getReferences w filePath ln ch s)
           \<and> (\<forall>e. (fst (handleGetDefinition w args s) = Inl e)
                    = (fst (getDefinition w filePath ln ch s) = Inl e))
           \<and> (\<forall>e. (fst (handleGetReferences w args s) = Inl e)
                    = (fst (getReferences w filePath ln ch s) = Inl e)))"
proof (intro conjI impI allI)
  assume "is_request_arguments args \<and> \<not> well_typed_position_args args"
  then have "\<not> well_typed_position_args args" by blast
  from parse_position_args_ill_typed [OF this]
  obtain issues where i: "issues \<noteq> []" "parse_position_args args = Inl (ZodError issues)"
    by blast
  then show "\<exists>issues. issues \<noteq> []
         \<and> handleGetDefinition w args s = (Inl (ZodError issues), s)
         \<and> handleGetReferences w args s = (Inl (ZodError issues), s)
         \<and> callTool w ''get_definition'' args s
             = Some (\<lparr>content_text = ''Error: '' @ ZodError_message w issues, isError = True\<rparr>, s)
         \<and> callTool w ''get_references'' args s
             = Some (\<lparr>content_text = ''Error: '' @ ZodError_message w issues, isError = True\<rparr>, s)"
    by (intro exI [of _ issues])
      (simp add: handleGetDefinition_def handleGetReferences_def callTool_def message_def)
next
  show "well_typed_position_args args = (\<exists>r. parse_position_args args = Inr r)"
  proof (cases "well_typed_position_args args")
    case True
    then show ?thesis using parse_position_args_well_typed [of args] by simp
  next
    case False
    then show ?thesis using parse_position_args_ill_typed [of args] by auto
  qed
next
  fix kvs filePath ln ch
  assume a: "args = JObject kvs \<and> obj_get kvs ''filePath'' = JString filePath
         \<and> ((\<exists>v. obj_get kvs ''line'' = JString v \<and> ln = StringToNumber v)
              \<or> (\<exists>n. obj_get kvs ''line'' = JNumber n \<and> ln = Num n))
         \<and> ((\<exists>v. obj_get kvs ''character'' = JString v \<and> ch = StringToNumber v)
              \<or> (\<exists>n. obj_get kvs ''character'' = JNumber n \<and> ch = Num n))"
  from a have l: "z_string_or_number [''line''] (obj_get kvs ''line'') = Inr ln" by auto
  from a have c: "z_string_or_number [''character''] (obj_get kvs ''character'') = Inr ch"
    by auto
  show p: "parse_position_args args = Inr (filePath, ln, ch)"
    using a l c by (simp add: parse_position_args_def Let_def)
  show "snd (handleGetDefinition w args s) = snd (getDefinition w filePath ln ch s)"
    by (simp add: p handleGetDefinition_def
        split: prod.splits sum.splits option.splits definition_result.splits)
  show "snd (handleGetReferences w args s) = snd (getReferences w filePath ln ch s)"
    by (simp add: p handleGetReferences_def split: prod.splits sum.splits option.splits)
  fix e
  show "(fst (handleGetDefinition w args s) = Inl e)
          = (fst (getDefinition w filePath ln ch s) = Inl e)"
    by (simp add: p handleGetDefinition_def
        split: prod.splits sum.splits option.splits definition_result.splits)
  show "(fst (handleGetReferences w args s) = Inl e)
          = (fst (getReferences w filePath ln ch s) = Inl e)"
    by (simp add: p handleGetReferences_def split: prod.splits sum.splits option.splits)
qed

lemma didOpen_demo_a:
  "didOpen demo_world ''a.ts'' ready_state =
     (emit (Notification_didOpen ''file:///p/a.ts'' ''typescript'' 1 ''function f() {}'')
        (emit (ReadFile ''/p/a.ts'') ready_state))\<lparr>openFiles := {''file:///p/a.ts''}\<rparr>"
  by (simp add: didOpen_def ready_simps resolve_demo Let_def)
    (simp add: demo_world_def getLanguageId_def endsWith_def ready_simps)

lemma getDefinition_demo_abc:
  "getDefinition demo_world ''a.ts'' (StringToNumber ''abc'') (Num 3) (new_LspClient demo_world) =
     (Inr None,
      emit (Request_definition ''file:///p/a.ts'' (StringToNumber ''abc'') (Num 3))
        ((emit (Notification_didOpen ''file:///p/a.ts'' ''typescript'' 1 ''function f() {}'')
            (emit (ReadFile ''/p/a.ts'') ready_state))\<lparr>openFiles := {''file:///p/a.ts''}\<rparr>))"
  by (simp add: getDefinition_def ensure_demo didOpen_demo_a Let_def ready_simps resolve_demo)
    (simp add: demo_world_def)

text \<open>
  Claim C3, as stated: a non-numeric string supplied for \<open>line\<close> is rejected with a
  validation error before any query is issued. This fails: for the line \<open>abc\<close> the
  definition request is sent, with the position \<open>Number("abc")\<close>, and the result carries
  no error flag.
\<close>

theorem non_numeric_line_counterexample:
  "fst (handleGetDefinition demo_world
          (JObject [(''filePath'', JString ''a.ts''), (''line'', JString ''abc''),
                    (''character'', JNumber 3)])
          (new_LspClient demo_world))
     = Inr \<lparr>content_text = ''No definition found.'', isError = False\<rparr>
   \<and> Request_definition ''file:///p/a.ts'' (StringToNumber ''abc'') (Num 3)
       \<in> set (trace (snd (handleGetDefinition demo_world
                 (JObject [(''filePath'', JString ''a.ts''), (''line'', JString ''abc''),
                           (''character'', JNumber 3)])
                 (new_LspClient demo_world))))
   \<and> map_option fst
        (callTool demo_world ''get_definition''
           (JObject [(''filePath'', JString ''a.ts''), (''line'', JString ''abc''),
                     (''character'', JNumber 3)])
           (new_LspClient demo_world))
       = Some \<lparr>content_text = ''No definition found.'', isError = False\<rparr>"
proof -
  have p: "parse_position_args
             (JObject [(''filePath'', JString ''a.ts''), (''line'', JString ''abc''),
                       (''character'', JNumber 3)])
           = Inr (''a.ts'', StringToNumber ''abc'', Num 3)"
    by (simp add: parse_position_args_def obj_get_def)
  show ?thesis
    by (simp add: callTool_def handleGetDefinition_def p getDefinition_demo_abc text_result_def)
qed

theorem position_args_validation_witness:
  "is_request_arguments (JObject [(''filePath'', JString ''a.ts''), (''character'', JNumber 3)])
   \<and> \<not> well_typed_position_args (JObject [(''filePath'', JString ''a.ts''), (''character'', JNumber 3)])
   \<and> handleGetDefinition demo_world
         (JObject [(''filePath'', JString ''a.ts''), (''character'', JNumber 3)])
         (new_LspClient demo_world)
       = (Inl (ZodError [invalid_union [''line'']]), new_LspClient demo_world)
   \<and> is_request_arguments JUndefined
   \<and> \<not> well_typed_position_args JUndefined
   \<and> handleGetReferences demo_world JUndefined (new_LspClient demo_world)
       = (Inl (ZodError [invalid_type []]), new_LspClient demo_world)
   \<and> obj_get [(''filePath'', JString ''a.ts''), (''line'', JString ''abc''), (''character'', JNumber 3)]
         ''line'' = JString ''abc''
   \<and> parse_position_args
         (JObject [(''filePath'', JString ''a.ts''), (''line'', JString ''abc''),
                   (''character'', JNumber 3)])
       = Inr (''a.ts'', StringToNumber ''abc'', Num 3)
   \<and> snd (handleGetReferences demo_world
              (JObject [(''filePath'', JString ''a.ts''), (''line'', JString ''abc''),
                        (''character'', JNumber 3)])
              (new_LspClient demo_world))
       = snd (getReferences demo_world ''a.ts'' (StringToNumber ''abc'') (Num 3)
                (new_LspClient demo_world))
   \<and> obj_get [(''filePath'', JString ''a.ts''), (''line'', JNumber 2), (''character'', JString ''x'')]
         ''character'' = JString ''x''
   \<and> parse_position_args
         (JObject [(''filePath'', JString ''a.ts''), (''line'', JNumber 2),
                   (''character'', JString ''x'')])
       = Inr (''a.ts'', Num 2, StringToNumber ''x'')
   \<and> snd (handleGetDefinition demo_world
              (JObject [(''filePath'', JString ''a.ts''), (''line'', JNumber 2),
                        (''character'', JString ''x'')])
              (new_LspClient demo_world))
       = snd (getDefinition demo_world ''a.ts'' (Num 2) (StringToNumber ''x'')
                (new_LspClient demo_world))
   \<and> well_typed_position_args
         (JObject [(''filePath'', JString ''a.ts''), (''line'', JNumber 2),
                   (''character'', JString ''x'')])"
proof -
  let ?bad = "JObject [(''filePath'', JString ''a.ts''), (''character'', JNumber 3)]"
  let ?kvs = "[(''filePath'', JString ''a.ts''), (''line'', JString ''abc''),
               (''character'', JNumber 3)]"
  let ?kvs' = "[(''filePath'', JString ''a.ts''), (''line'', JNumber 2),
                (''character'', JString ''x'')]"
  note main = position_args_validation
  have r: "is_request_arguments ?bad" "is_request_arguments JUndefined"
    by simp_all
  have n: "\<not> well_typed_position_args ?bad" "\<not> well_typed_position_args JUndefined"
    by (simp_all add: well_typed_position_args_def obj_get_def)
  have e: "fst (handleGetDefinition demo_world ?bad (new_LspClient demo_world))
             = Inl (ZodError [invalid_union [''line'']])"
    by (simp add: handleGetDefinition_def parse_position_args_def obj_get_def)
  from main [of ?bad demo_world "new_LspClient demo_world"] r(1) n(1)
  obtain issues where
    "handleGetDefinition demo_world ?bad (new_LspClient demo_world)
       = (Inl (ZodError issues), new_LspClient demo_world)"
    by blast
  with e have a: "handleGetDefinition demo_world ?bad (new_LspClient demo_world)
       = (Inl (ZodError [invalid_union [''line'']]), new_LspClient demo_world)"
    by simp
  have e': "fst (handleGetReferences demo_world JUndefined (new_LspClient demo_world))
             = Inl (ZodError [invalid_type []])"
    by (simp add: handleGetReferences_def parse_position_args_def)
  from main [of JUndefined demo_world "new_LspClient demo_world"] r(2) n(2)
  obtain issues' where
    "handleGetReferences demo_world JUndefined (new_LspClient demo_world)
       = (Inl (ZodError issues'), new_LspClient demo_world)"
    by blast
  with e' have a': "handleGetReferences demo_world JUndefined (new_LspClient demo_world)
       = (Inl (ZodError [invalid_type []]), new_LspClient demo_world)"
    by simp
  have k: "obj_get ?kvs ''filePath'' = JString ''a.ts''" "obj_get ?kvs ''line'' = JString ''abc''"
    "obj_get ?kvs ''character'' = JNumber 3"
    by (simp_all add: obj_get_def)
  have k': "obj_get ?kvs' ''filePath'' = JString ''a.ts''" "obj_get ?kvs' ''line'' = JNumber 2"
    "obj_get ?kvs' ''character'' = JString ''x''"
    by (simp_all add: obj_get_def)
  from main [of "JObject ?kvs" demo_world "new_LspClient demo_world"] k
  have b: "parse_position_args (JObject ?kvs) = Inr (''a.ts'', StringToNumber ''abc'', Num 3)
     \<and> snd (handleGetReferences demo_world (JObject ?kvs) (new_LspClient demo_world))
       = snd (getReferences demo_world ''a.ts'' (StringToNumber ''abc'') (Num 3)
                (new_LspClient demo_world))"
    by blast
  from main [of "JObject ?kvs'" demo_world "new_LspClient demo_world"] k'
  have c: "parse_position_args (JObject ?kvs') = Inr (''a.ts'', Num 2, StringToNumber ''x'')
     \<and> snd (handleGetDefinition demo_world (JObject ?kvs') (new_LspClient demo_world))
       = snd (getDefinition demo_world ''a.ts'' (Num 2) (StringToNumber ''x'')
                (new_LspClient demo_world))"
    by blast
  from main [of "JObject ?kvs'" demo_world "new_LspClient demo_world"] c
  have d: "well_typed_position_args (JObject ?kvs')"
    by blast
  from b c show ?thesis
    by (intro conjI r n a a' k(2) k'(3) d) blast+
qed

end
